theory Spec2Isabelle
  imports Complex_Main "HOL-Library.Multiset" "HOL-Library.Sublist"
begin

section \<open>Strings\<close>

text \<open>
  A Go string is a sequence of bytes: \<open>len\<close> counts bytes and a slice expression cuts
  at byte offsets. Strings are modelled as \<^typ>\<open>string\<close>, a list of 8-bit characters.
\<close>

abbreviation NL :: string where "NL \<equiv> [CHR 0x0A]"
abbreviation TAB :: string where "TAB \<equiv> [CHR 0x09]"
abbreviation DQ :: string where "DQ \<equiv> [CHR 0x22]"
abbreviation SQ :: string where "SQ \<equiv> [CHR 0x27]"

text \<open>
  What a call can end with besides its value: an error value (the second result of a Go
  function), or a run-time panic. \<open>Sql_error n\<close> is the error of the \<open>n\<close>-th SQL
  statement, \<open>Provider_error n\<close> that of the \<open>n\<close>-th call of the completion
  provider, \<open>Scan_error\<close> that of \<open>rows.Scan\<close> reading NULL into an \<open>int64\<close>;
  \<open>Wrapped c e\<close> is \<open>fmt.Errorf("c: %w", e)\<close>.
  \<open>Panic_slice_bounds lo hi\<close> is the run-time panic
  "slice bounds out of range [lo:hi]" of a slice expression; it is not an error value and
  no caller in the repository recovers from it.
\<close>

datatype error =
    Sql_error nat
  | Provider_error nat
  | Scan_error
  | Wrapped string error
  | Unknown_action string
  | Panic_slice_bounds int int

definition HasPrefix :: "string \<Rightarrow> string \<Rightarrow> bool" where
  "HasPrefix s p = (length p \<le> length s \<and> take (length p) s = p)"

definition HasSuffix :: "string \<Rightarrow> string \<Rightarrow> bool" where
  "HasSuffix s p = (length p \<le> length s \<and> drop (length s - length p) s = p)"

text \<open>
  The slice expression \<open>s[lo:hi]\<close> on a string. Go requires \<open>0 \<le> lo \<le> hi \<le> len(s)\<close>
  and panics otherwise.
\<close>

definition slice :: "string \<Rightarrow> int \<Rightarrow> int \<Rightarrow> error + string" where
  "slice s lo hi =
     (if 0 \<le> lo \<and> lo \<le> hi \<and> hi \<le> int (length s)
      then Inr (take (nat (hi - lo)) (drop (nat lo) s))
      else Inl (Panic_slice_bounds lo hi))"

text \<open>
  \<open>strings.TrimSpace\<close> removes the leading and the trailing white space of a string,
  white space being the code points with Unicode's White_Space property. On the bytes of
  the string these are the UTF-8 encodings below: a leading (trailing) rune is white
  space exactly when one of them is a prefix (suffix) of the string.
\<close>

definition space_runes :: "string list" where
  "space_runes =
     [[CHR 0x09], [CHR 0x0A], [CHR 0x0B], [CHR 0x0C], [CHR 0x0D], [CHR 0x20],
      [CHR 0xC2, CHR 0x85], [CHR 0xC2, CHR 0xA0],
      [CHR 0xE1, CHR 0x9A, CHR 0x80],
      [CHR 0xE2, CHR 0x80, CHR 0x80], [CHR 0xE2, CHR 0x80, CHR 0x81],
      [CHR 0xE2, CHR 0x80, CHR 0x82], [CHR 0xE2, CHR 0x80, CHR 0x83],
      [CHR 0xE2, CHR 0x80, CHR 0x84], [CHR 0xE2, CHR 0x80, CHR 0x85],
      [CHR 0xE2, CHR 0x80, CHR 0x86], [CHR 0xE2, CHR 0x80, CHR 0x87],
      [CHR 0xE2, CHR 0x80, CHR 0x88], [CHR 0xE2, CHR 0x80, CHR 0x89],
      [CHR 0xE2, CHR 0x80, CHR 0x8A],
      [CHR 0xE2, CHR 0x80, CHR 0xA8], [CHR 0xE2, CHR 0x80, CHR 0xA9],
      [CHR 0xE2, CHR 0x80, CHR 0xAF],
      [CHR 0xE2, CHR 0x81, CHR 0x9F],
      [CHR 0xE3, CHR 0x80, CHR 0x80]]"

definition leading_space :: "string \<Rightarrow> nat" where
  "leading_space s =
     (case find (\<lambda>p. HasPrefix s p) space_runes of None \<Rightarrow> 0 | Some p \<Rightarrow> length p)"

definition trailing_space :: "string \<Rightarrow> nat" where
  "trailing_space s =
     (case find (\<lambda>p. HasSuffix s p) space_runes of None \<Rightarrow> 0 | Some p \<Rightarrow> length p)"

lemma leading_space_pos: "0 < leading_space s \<Longrightarrow> s \<noteq> []"
  by (auto simp: leading_space_def space_runes_def HasPrefix_def)

lemma trailing_space_pos: "0 < trailing_space s \<Longrightarrow> s \<noteq> []"
  by (auto simp: trailing_space_def space_runes_def HasSuffix_def)

function TrimLeft :: "string \<Rightarrow> string" where
  "TrimLeft s = (if leading_space s = 0 then s else TrimLeft (drop (leading_space s) s))"
  by pat_completeness auto
termination
  by (relation "measure length") (use leading_space_pos in auto)

function TrimRight :: "string \<Rightarrow> string" where
  "TrimRight s =
     (if trailing_space s = 0 then s
      else TrimRight (take (length s - trailing_space s) s))"
  by pat_completeness auto
termination
  by (relation "measure length") (use trailing_space_pos in auto)

declare TrimLeft.simps [simp del] TrimRight.simps [simp del]

definition TrimSpace :: "string \<Rightarrow> string" where
  "TrimSpace s = TrimRight (TrimLeft s)"

section \<open>Data\<close>

text \<open>
  A \<open>float64\<close> is a finite number, an infinity or NaN. The finite values are read as
  the real numbers they denote, so \<open>Finite\<close> ranges over more values than a machine
  has; comparison of finite machine values is comparison of those reals. A comparison
  with NaN is false.
\<close>

datatype float64 = Finite real | PosInf | NegInf | NaN

fun f64_gt :: "float64 \<Rightarrow> float64 \<Rightarrow> bool" where
  "f64_gt NaN y = False"
| "f64_gt x NaN = False"
| "f64_gt (Finite a) (Finite b) = (b < a)"
| "f64_gt x PosInf = False"
| "f64_gt PosInf y = True"
| "f64_gt NegInf y = False"
| "f64_gt (Finite a) NegInf = True"

definition f64_ge :: "float64 \<Rightarrow> float64 \<Rightarrow> bool" where
  "f64_ge x y = (f64_gt x y \<or> (x = y \<and> x \<noteq> NaN))"

text \<open>\<open>models.Message\<close> and \<open>models.Conversation\<close>; a \<open>time.Time\<close> is a number of seconds.\<close>

record Message =
  m_ID :: int
  m_ConvID :: int
  m_Role :: string
  m_Content :: string
  m_CreatedAt :: int

record Conversation =
  c_ID :: int
  c_Title :: string
  c_CreatedAt :: int

text \<open>A row of the table \<open>knowledge\<close>; the column \<open>conversation_id\<close> is nullable.\<close>

record Knowledge =
  kn_id :: int
  kn_content :: string
  kn_conversation_id :: "int option"
  kn_created_at :: int

text \<open>The anonymous struct of \<open>db.SearchKnowledge\<close>.\<close>

record Candidate =
  cand_Content :: string
  cand_ConversationID :: int
  cand_CreatedAt :: int

record StoreInfo =
  UserInput :: "string list"
  BotResponse :: "string list"

record LLMResponse =
  Action :: string
  Content :: string
  Store_Info :: StoreInfo
  NewTitle :: string

record KnowledgeSearchResult =
  k_Content :: string
  k_Relevance :: float64
  k_CreatedAt :: int

text \<open>A decoded JSON value, as \<open>encoding/json\<close> stores one in an \<open>interface{}\<close>.\<close>

datatype json =
    JNull
  | JBool bool
  | JNumber real
  | JString string
  | JArray "json list"
  | JObject "(string \<times> json) list"

section \<open>The environment\<close>

text \<open>
  The code calls into Go's standard library, the completion provider and SQLite. None of
  them is code of the repository; what they answer is a parameter of the model.
  \<^item> \<open>json_Unmarshal s\<close>: \<open>json.Unmarshal\<close> of \<open>s\<close> into an \<open>LLMResponse\<close>,
    \<open>None\<close> when it returns an error;
  \<^item> \<open>json_Unmarshal_map s\<close>: the same into a \<open>map[string]interface{}\<close>;
  \<^item> \<open>ParseFloat s\<close>: \<open>strconv.ParseFloat(s, 64)\<close>, \<open>None\<close> when it returns an error;
  \<^item> \<open>Sprintf_2f x\<close>: what the verb \<open>%.2f\<close> prints for \<open>x\<close>;
  \<^item> \<open>sort_Slice less xs\<close>: the slice after \<open>sort.Slice(xs, less)\<close>;
  \<^item> \<open>Generate n p\<close>: the completion of the provider's \<open>n\<close>-th call, on the prompt
    \<open>p\<close>, \<open>None\<close> when the call returns an error;
  \<^item> \<open>sql_fails n\<close>: whether the \<open>n\<close>-th SQL statement returns an error;
  \<^item> \<open>CURRENT_TIMESTAMP n\<close>: the clock at the \<open>n\<close>-th statement;
  \<^item> \<open>MATCH_rows n q\<close>: the rows (content, conversation_id, created_at) of the join
    of \<open>knowledge\<close> with the full-text index for the query \<open>q\<close>, as the \<open>n\<close>-th
    statement yields them;
  \<^item> \<open>ORDER_BY_created_at_DESC rows\<close>: the rows in the order SQLite returns them for
    \<open>ORDER BY created_at DESC\<close>.
\<close>

record env =
  json_Unmarshal :: "string \<Rightarrow> LLMResponse option"
  json_Unmarshal_map :: "string \<Rightarrow> (string \<rightharpoonup> json) option"
  ParseFloat :: "string \<Rightarrow> float64 option"
  Sprintf_2f :: "float64 \<Rightarrow> string"
  sort_Slice :: "(KnowledgeSearchResult \<Rightarrow> KnowledgeSearchResult \<Rightarrow> bool) \<Rightarrow>
                 KnowledgeSearchResult list \<Rightarrow> KnowledgeSearchResult list"
  Generate :: "nat \<Rightarrow> string \<Rightarrow> string option"
  sql_fails :: "nat \<Rightarrow> bool"
  CURRENT_TIMESTAMP :: "nat \<Rightarrow> int"
  MATCH_rows :: "nat \<Rightarrow> string \<Rightarrow> (string \<times> int option \<times> int) list"
  ORDER_BY_created_at_DESC :: "Message list \<Rightarrow> Message list"

text \<open>
  The state a turn reads and writes: the three tables with their \<open>AUTOINCREMENT\<close>
  counters, the number of SQL statements run so far, and the prompts sent to the
  provider so far (oldest first).
\<close>

record world =
  tbl_conversations :: "Conversation list"
  tbl_messages :: "Message list"
  tbl_knowledge :: "Knowledge list"
  seq_conversations :: int
  seq_messages :: int
  seq_knowledge :: int
  statements :: nat
  sent :: "string list"

section \<open>The Response Interpreter\<close>

text \<open>
  \<open>ProcessMessage\<close>, from \<open>json.Unmarshal\<close> of the completion to the unwrapping of a
  content that is itself JSON.
\<close>

definition parse_completion :: "env \<Rightarrow> string \<Rightarrow> LLMResponse" where
  "parse_completion e completion =
     (case json_Unmarshal e completion of
        None \<Rightarrow>
          \<lparr>Action = ''reply'', Content = completion,
           Store_Info = \<lparr>UserInput = [], BotResponse = []\<rparr>, NewTitle = []\<rparr>
      | Some llmResponse \<Rightarrow>
          if HasPrefix (Content llmResponse) ''{'' \<or> HasPrefix (Content llmResponse) ''[''
          then (case json_Unmarshal_map e (Content llmResponse) of
                  None \<Rightarrow> llmResponse
                | Some rawJSON \<Rightarrow>
                    (case rawJSON ''content'' of
                       Some (JString content) \<Rightarrow> llmResponse\<lparr>Content := content\<rparr>
                     | _ \<Rightarrow> llmResponse))
          else llmResponse)"

text \<open>"Clean up any remaining JSON artifacts in the content": trim, then cut the quotes.\<close>

definition cleanup :: "LLMResponse \<Rightarrow> error + LLMResponse" where
  "cleanup llmResponse =
     (let c = TrimSpace (Content llmResponse) in
      if HasPrefix c DQ \<and> HasSuffix c DQ
      then (case slice c 1 (int (length c) - 1) of
              Inl p \<Rightarrow> Inl p
            | Inr c' \<Rightarrow> Inr (llmResponse\<lparr>Content := c'\<rparr>))
      else Inr (llmResponse\<lparr>Content := c\<rparr>))"

definition interpret_completion :: "env \<Rightarrow> string \<Rightarrow> error + LLMResponse" where
  "interpret_completion e completion = cleanup (parse_completion e completion)"

section \<open>The knowledge body of a store action\<close>

text \<open>The loop over \<open>i\<close> that writes into the \<open>strings.Builder\<close>, from index \<open>i\<close> on.\<close>

function store_loop :: "string list \<Rightarrow> string list \<Rightarrow> nat \<Rightarrow> string \<Rightarrow> string" where
  "store_loop ui br i storeContent =
     (if i < length ui
      then store_loop ui br (i + 1)
             (storeContent @ ''Information: '' @ ui ! i @ NL @
              (if i < length br then ''Context: '' @ br ! i @ NL else []))
      else storeContent)"
  by pat_completeness auto
termination
  by (relation "measure (\<lambda>(ui, br, i, storeContent). length ui - i)") auto

declare store_loop.simps [simp del]

definition render_store :: "StoreInfo \<Rightarrow> string" where
  "render_store info =
     store_loop (UserInput info) (BotResponse info) 0 (''Knowledge Entry:'' @ NL)"

section \<open>The Context Assembler\<close>

definition systemPrompt :: string where
  "systemPrompt = concat
       [''You are an AI assistant that can:'' @ NL,
        TAB @ ''1. Reply to users (action: '' @ DQ @ ''reply'' @ DQ @ '')'' @ NL,
        TAB @ ''2. Store important information in a knowledge base (action: '' @ DQ @
          ''store'' @ DQ @ '')'' @ NL,
        TAB @ ''3. Search existing knowledge (action: '' @ DQ @ ''search'' @ DQ @ '')'' @ NL,
        TAB @ ''4. Create new conversations when topics change significantly (action: '' @ DQ @
          ''new_conversation'' @ DQ @ '')'' @ NL,
        NL,
        TAB @ ''When storing knowledge:'' @ NL,
        TAB @ ''- Only store specific, important facts or information'' @ NL,
        TAB @ ''- Extract and summarize the key information, don'' @ SQ @
          ''t store entire conversations'' @ NL,
        TAB @ ''- Format the information clearly and concisely'' @ NL,
        NL,
        NL,
        TAB @
          ''When the user asks about previous information or references past conversations,'' @
          NL,
        TAB @ ''use the '' @ DQ @ ''reply'' @ DQ @
          '' action to respond using the conversation history and knowledge provided.'' @ NL,
        TAB @ ''Only use '' @ DQ @ ''search'' @ DQ @
          '' when explicitly asked to search for something.'' @ NL,
        NL,
        TAB @ ''IMPORTANT: Your response must be a valid JSON object, but the '' @ DQ @
          ''content'' @ DQ @ '' field should contain'' @ NL,
        TAB @ ''your natural language response to the user, not JSON or technical details.'' @
          NL,
        NL,
        TAB @ ''Respond with a JSON object containing:'' @ NL,
        TAB @ ''{'' @ NL,
        TAB @ TAB @ DQ @ ''action'' @ DQ @ '': '' @ DQ @
          ''reply|store|search|new_conversation'' @ DQ @ '','' @ NL,
        TAB @ TAB @ DQ @ ''content'' @ DQ @ '': '' @ DQ @
          ''Your natural language response here...'' @ DQ @ '','' @ NL,
        TAB @ TAB @ DQ @ ''store_info'' @ DQ @ '': {'' @ NL,
        TAB @ TAB @ TAB @ DQ @ ''user_input'' @ DQ @ '': ['' @ DQ @
          ''The key information to store'' @ DQ @ ''],  // Extract only the important facts'' @
          NL,
        TAB @ TAB @ TAB @ DQ @ ''bot_response'' @ DQ @ '': ['' @ DQ @
          ''Confirmation or clarification of the stored info'' @ DQ @ '']'' @ NL,
        TAB @ TAB @ ''},'' @ NL,
        TAB @ TAB @ DQ @ ''new_title'' @ DQ @ '': '' @ DQ @
          ''optional: title for new conversation if action is new_conversation'' @ DQ @ NL,
        TAB @ ''}'']"

text \<open>The lines the prompt gets from the two loops of \<open>ProcessMessage\<close>.\<close>

definition knowledge_lines :: "env \<Rightarrow> KnowledgeSearchResult list \<Rightarrow> string" where
  "knowledge_lines e knowledge =
     concat (map (\<lambda>k. ''- '' @ k_Content k @ '' (relevance: '' @
                        Sprintf_2f e (k_Relevance k) @ '')'' @ NL) knowledge)"

text \<open>The history is printed from its last element down to its first.\<close>

definition history_lines :: "Message list \<Rightarrow> string" where
  "history_lines history =
     concat (map (\<lambda>m. m_Role m @ '': '' @ m_Content m @ NL) (rev history))"

definition assemble_prompt ::
  "env \<Rightarrow> KnowledgeSearchResult list \<Rightarrow> Message list \<Rightarrow> Message \<Rightarrow> string" where
  "assemble_prompt e knowledge history msg =
     systemPrompt @ NL @ NL @ ''Relevant knowledge from database:'' @ NL @
     knowledge_lines e knowledge @
     NL @ NL @ ''Conversation history:'' @ NL @
     history_lines history @
     NL @ ''Current message:'' @ NL @ m_Role msg @ '': '' @ m_Content msg @ NL @ NL @
     ''Response:''"

section \<open>The store\<close>

text \<open>
  \<open>internal/db/sqlite.go\<close>. A statement that fails leaves the tables as they were; each
  statement, failed or not, is counted. A transaction that returns before its
  \<open>Commit\<close> succeeds is rolled back by the deferred \<open>tx.Rollback()\<close>.
\<close>

definition db_SaveMessage :: "env \<Rightarrow> world \<Rightarrow> Message \<Rightarrow> (error + Message) \<times> world" where
  "db_SaveMessage e w msg =
     (let n = statements w; w1 = w\<lparr>statements := n + 1\<rparr> in
      if sql_fails e n then (Inl (Sql_error n), w1)
      else
        let msg' = msg\<lparr>m_ID := seq_messages w + 1, m_CreatedAt := CURRENT_TIMESTAMP e n\<rparr>
        in (Inr msg',
            w1\<lparr>tbl_messages := tbl_messages w @ [msg'], seq_messages := seq_messages w + 1\<rparr>))"

definition db_CreateConversation ::
  "env \<Rightarrow> world \<Rightarrow> string \<Rightarrow> (error + Conversation) \<times> world" where
  "db_CreateConversation e w title =
     (let n = statements w; w1 = w\<lparr>statements := n + 1\<rparr> in
      if sql_fails e n then (Inl (Sql_error n), w1)
      else
        let conv = \<lparr>c_ID = seq_conversations w + 1, c_Title = title,
                    c_CreatedAt = CURRENT_TIMESTAMP e n\<rparr>
        in (Inr conv,
            w1\<lparr>tbl_conversations := tbl_conversations w @ [conv],
               seq_conversations := seq_conversations w + 1\<rparr>))"

text \<open>
  \<open>Begin\<close>, the insert into \<open>knowledge\<close>, the insert into the full-text index and
  \<open>Commit\<close> are the statements \<open>n\<close> to \<open>n + 3\<close>. The index itself is SQLite's and is
  not part of the state.
\<close>

definition db_SaveToKnowledgeBase ::
  "env \<Rightarrow> world \<Rightarrow> string \<Rightarrow> int \<Rightarrow> (error + unit) \<times> world" where
  "db_SaveToKnowledgeBase e w content conversationID =
     (let n = statements w in
      if sql_fails e n then (Inl (Sql_error n), w\<lparr>statements := n + 1\<rparr>)
      else if sql_fails e (n + 1) then (Inl (Sql_error (n + 1)), w\<lparr>statements := n + 2\<rparr>)
      else if sql_fails e (n + 2) then (Inl (Sql_error (n + 2)), w\<lparr>statements := n + 3\<rparr>)
      else if sql_fails e (n + 3) then (Inl (Sql_error (n + 3)), w\<lparr>statements := n + 4\<rparr>)
      else
        (Inr (),
         w\<lparr>statements := n + 4,
           tbl_knowledge := tbl_knowledge w @
             [\<lparr>kn_id = seq_knowledge w + 1, kn_content = content,
               kn_conversation_id = Some conversationID,
               kn_created_at = CURRENT_TIMESTAMP e (n + 1)\<rparr>],
           seq_knowledge := seq_knowledge w + 1\<rparr>))"

definition db_GetConversationHistory ::
  "env \<Rightarrow> world \<Rightarrow> int \<Rightarrow> nat \<Rightarrow> (error + Message list) \<times> world" where
  "db_GetConversationHistory e w conversationID limit =
     (let n = statements w; w1 = w\<lparr>statements := n + 1\<rparr> in
      if sql_fails e n then (Inl (Sql_error n), w1)
      else
        (Inr (take limit (ORDER_BY_created_at_DESC e
                (filter (\<lambda>m. m_ConvID m = conversationID) (tbl_messages w)))),
         w1))"

text \<open>The loop over \<open>rows.Next()\<close>: \<open>Scan\<close> fails on a NULL \<open>conversation_id\<close>.\<close>

fun scan_rows ::
  "(string \<times> int option \<times> int) list \<Rightarrow> Candidate list \<Rightarrow> error + Candidate list" where
  "scan_rows [] results = Inr results"
| "scan_rows ((content, cid, created) # rows) results =
     (case cid of
        None \<Rightarrow> Inl (Wrapped ''failed to scan result'' Scan_error)
      | Some i \<Rightarrow>
          scan_rows rows
            (results @
             [\<lparr>cand_Content = content, cand_ConversationID = i, cand_CreatedAt = created\<rparr>]))"

text \<open>
  The statements \<open>n\<close> and \<open>n + 1\<close> create and fill the full-text index,
  \<open>n + 2\<close> is the query.
\<close>

definition db_SearchKnowledge ::
  "env \<Rightarrow> world \<Rightarrow> string \<Rightarrow> (error + Candidate list) \<times> world" where
  "db_SearchKnowledge e w query =
     (let n = statements w in
      if sql_fails e n
      then (Inl (Wrapped ''failed to create FTS table'' (Sql_error n)),
            w\<lparr>statements := n + 1\<rparr>)
      else if sql_fails e (n + 1)
      then (Inl (Wrapped ''failed to sync FTS table'' (Sql_error (n + 1))),
            w\<lparr>statements := n + 2\<rparr>)
      else if sql_fails e (n + 2)
      then (Inl (Wrapped ''failed to search knowledge'' (Sql_error (n + 2))),
            w\<lparr>statements := n + 3\<rparr>)
      else (scan_rows (MATCH_rows e (n + 2) query) [], w\<lparr>statements := n + 3\<rparr>))"

text \<open>
  \<open>Begin\<close>, the three \<open>DELETE\<close> statements and \<open>Commit\<close> are the statements \<open>n\<close> to
  \<open>n + 4\<close>. \<open>DELETE FROM knowledge WHERE conversation_id = ?\<close> removes the rows whose
  \<open>conversation_id\<close> is the identifier; a NULL never equals it. No row refers to the
  conversation any more when its own row is deleted, so the \<open>ON DELETE\<close> clauses of the
  schema find nothing to act on.
\<close>

definition db_DeleteConversation :: "env \<Rightarrow> world \<Rightarrow> int \<Rightarrow> (error + unit) \<times> world" where
  "db_DeleteConversation e w ident =
     (let n = statements w in
      if sql_fails e n then (Inl (Sql_error n), w\<lparr>statements := n + 1\<rparr>)
      else if sql_fails e (n + 1) then (Inl (Sql_error (n + 1)), w\<lparr>statements := n + 2\<rparr>)
      else if sql_fails e (n + 2) then (Inl (Sql_error (n + 2)), w\<lparr>statements := n + 3\<rparr>)
      else if sql_fails e (n + 3) then (Inl (Sql_error (n + 3)), w\<lparr>statements := n + 4\<rparr>)
      else if sql_fails e (n + 4) then (Inl (Sql_error (n + 4)), w\<lparr>statements := n + 5\<rparr>)
      else
        (Inr (),
         w\<lparr>statements := n + 5,
           tbl_messages := filter (\<lambda>m. m_ConvID m \<noteq> ident) (tbl_messages w),
           tbl_knowledge := filter (\<lambda>k. kn_conversation_id k \<noteq> Some ident) (tbl_knowledge w),
           tbl_conversations := filter (\<lambda>c. c_ID c \<noteq> ident) (tbl_conversations w)\<rparr>))"

section \<open>The completion provider\<close>

definition GenerateFromSinglePrompt ::
  "env \<Rightarrow> world \<Rightarrow> string \<Rightarrow> (error + string) \<times> world" where
  "GenerateFromSinglePrompt e w prompt =
     (let n = length (sent w); w1 = w\<lparr>sent := sent w @ [prompt]\<rparr> in
      case Generate e n prompt of
        None \<Rightarrow> (Inl (Provider_error n), w1)
      | Some completion \<Rightarrow> (Inr completion, w1))"

section \<open>The Relevance Scorer and the Knowledge Retriever\<close>

definition relevance_prompt :: "string \<Rightarrow> string \<Rightarrow> string" where
  "relevance_prompt query content =
     NL @ TAB @ TAB @ ''Query: '' @ query @ NL @
     TAB @ TAB @ NL @
     TAB @ TAB @ ''Potential relevant information: '' @ content @ NL @
     TAB @ TAB @ NL @
     TAB @ TAB @
     ''Rate the relevance of this information to the query on a scale of 0.0 to 1.0.'' @
     NL @ TAB @ TAB @ ''Respond with only the number.''"

text \<open>\<open>strconv.ParseFloat\<close> of the trimmed completion, and \<open>0.0\<close> when it fails.\<close>

definition parse_relevance :: "env \<Rightarrow> string \<Rightarrow> float64" where
  "parse_relevance e completion =
     (case ParseFloat e (TrimSpace completion) of None \<Rightarrow> Finite 0 | Some r \<Rightarrow> r)"

text \<open>
  The loop of \<open>SearchKnowledge\<close> over the candidates. The constant \<open>0.3\<close> of the source
  is the \<open>float64\<close> nearest to \<open>3/10\<close>, which lies below it; no \<open>float64\<close> lies
  between the two, so a \<open>float64\<close> is greater than the one exactly when it is greater
  than the other.
\<close>

fun score_loop ::
  "env \<Rightarrow> string \<Rightarrow> Candidate list \<Rightarrow> KnowledgeSearchResult list \<Rightarrow> world \<Rightarrow>
   (error + KnowledgeSearchResult list) \<times> world" where
  "score_loop e query [] knowledgeResults w = (Inr knowledgeResults, w)"
| "score_loop e query (result # results) knowledgeResults w =
     (case GenerateFromSinglePrompt e w (relevance_prompt query (cand_Content result)) of
        (Inl err, w1) \<Rightarrow> (Inl (Wrapped ''failed to evaluate relevance'' err), w1)
      | (Inr completion, w1) \<Rightarrow>
          (let relevance = parse_relevance e completion in
           score_loop e query results
             (if f64_gt relevance (Finite 0.3)
              then knowledgeResults @
                   [\<lparr>k_Content = cand_Content result, k_Relevance = relevance,
                     k_CreatedAt = cand_CreatedAt result\<rparr>]
              else knowledgeResults)
             w1))"

definition SearchKnowledge ::
  "env \<Rightarrow> world \<Rightarrow> string \<Rightarrow> (error + KnowledgeSearchResult list) \<times> world" where
  "SearchKnowledge e w query =
     (case db_SearchKnowledge e w query of
        (Inl err, w1) \<Rightarrow> (Inl (Wrapped ''failed to search knowledge base'' err), w1)
      | (Inr results, w1) \<Rightarrow>
          (case score_loop e query results [] w1 of
             (Inl err, w2) \<Rightarrow> (Inl err, w2)
           | (Inr knowledgeResults, w2) \<Rightarrow>
               (Inr (sort_Slice e (\<lambda>a b. f64_gt (k_Relevance a) (k_Relevance b))
                       knowledgeResults),
                w2)))"

section \<open>The Action Dispatcher\<close>

text \<open>The assistant's message, saved: what the cases of the \<open>switch\<close> end with.\<close>

definition save_response :: "env \<Rightarrow> world \<Rightarrow> int \<Rightarrow> string \<Rightarrow> (error + Message) \<times> world" where
  "save_response e w convID content =
     (case db_SaveMessage e w
             \<lparr>m_ID = 0, m_ConvID = convID, m_Role = ''assistant'', m_Content = content,
              m_CreatedAt = 0\<rparr> of
        (Inl err, w1) \<Rightarrow> (Inl (Wrapped ''failed to save message'' err), w1)
      | (Inr response, w1) \<Rightarrow> (Inr response, w1))"

definition dispatch ::
  "env \<Rightarrow> world \<Rightarrow> Message \<Rightarrow> LLMResponse \<Rightarrow> (error + Message) \<times> world" where
  "dispatch e w msg llmResponse =
     (if Action llmResponse = ''reply''
      then save_response e w (m_ConvID msg) (Content llmResponse)
      else if Action llmResponse = ''store''
      then (case db_SaveToKnowledgeBase e w (render_store (Store_Info llmResponse))
                   (m_ConvID msg) of
              (r, w1) \<Rightarrow> save_response e w1 (m_ConvID msg) (Content llmResponse))
      else if Action llmResponse = ''search''
      then save_response e w (m_ConvID msg) (Content llmResponse)
      else if Action llmResponse = ''new_conversation''
      then (case db_CreateConversation e w (NewTitle llmResponse) of
              (Inl err, w1) \<Rightarrow> (Inl (Wrapped ''failed to create new conversation'' err), w1)
            | (Inr newConv, w1) \<Rightarrow> save_response e w1 (c_ID newConv) (Content llmResponse))
      else (Inl (Unknown_action (Action llmResponse)), w))"

section \<open>A turn\<close>

text \<open>\<open>ProcessMessage\<close> once the knowledge is known.\<close>

definition respond ::
  "env \<Rightarrow> world \<Rightarrow> Message \<Rightarrow> KnowledgeSearchResult list \<Rightarrow> (error + Message) \<times> world" where
  "respond e w msg knowledge =
     (case db_GetConversationHistory e w (m_ConvID msg) 10 of
        (Inl err, w1) \<Rightarrow> (Inl (Wrapped ''failed to get conversation history'' err), w1)
      | (Inr history, w1) \<Rightarrow>
          (case GenerateFromSinglePrompt e w1 (assemble_prompt e knowledge history msg) of
             (Inl err, w2) \<Rightarrow> (Inl (Wrapped ''failed to generate completion'' err), w2)
           | (Inr completion, w2) \<Rightarrow>
               (case interpret_completion e completion of
                  Inl p \<Rightarrow> (Inl p, w2)
                | Inr llmResponse \<Rightarrow> dispatch e w2 msg llmResponse)))"

definition ProcessMessage :: "env \<Rightarrow> world \<Rightarrow> Message \<Rightarrow> (error + Message) \<times> world" where
  "ProcessMessage e w msg =
     (case SearchKnowledge e w (m_Content msg) of
        (Inl err, w1) \<Rightarrow> respond e w1 msg []
      | (Inr knowledge, w1) \<Rightarrow> respond e w1 msg knowledge)"


section \<open>What the library promises, and an environment to run examples in\<close>

text \<open>
  \<open>sort.Slice\<close> sorts with respect to its comparison \<open>lt\<close> and is not stable. Provided \<open>lt\<close>
  orders the elements of the slice (it is asymmetric, and "not lt" is transitive),
  the result is a rearrangement of the slice in which no element is lt than an
  earlier one. Nothing is assumed about the order of elements that compare equal.
\<close>

definition orders :: "'a set \<Rightarrow> ('a \<Rightarrow> 'a \<Rightarrow> bool) \<Rightarrow> bool" where
  "orders A lt \<longleftrightarrow>
     (\<forall>a\<in>A. \<forall>b\<in>A. \<not> (lt a b \<and> lt b a)) \<and>
     (\<forall>a\<in>A. \<forall>b\<in>A. \<forall>c\<in>A. \<not> lt b a \<and> \<not> lt c b \<longrightarrow> \<not> lt c a)"

definition sorts :: "(('a \<Rightarrow> 'a \<Rightarrow> bool) \<Rightarrow> 'a list \<Rightarrow> 'a list) \<Rightarrow> bool" where
  "sorts srt \<longleftrightarrow>
     (\<forall>lt xs. orders (set xs) lt \<longrightarrow>
        mset (srt lt xs) = mset xs \<and> sorted_wrt (\<lambda>a b. \<not> lt b a) (srt lt xs))"

text \<open>Insertion sort, one function that keeps this promise.\<close>

fun insert_by :: "('a \<Rightarrow> 'a \<Rightarrow> bool) \<Rightarrow> 'a \<Rightarrow> 'a list \<Rightarrow> 'a list" where
  "insert_by lt x [] = [x]"
| "insert_by lt x (y # ys) = (if lt x y then x # y # ys else y # insert_by lt x ys)"

fun insertion_sort :: "('a \<Rightarrow> 'a \<Rightarrow> bool) \<Rightarrow> 'a list \<Rightarrow> 'a list" where
  "insertion_sort lt [] = []"
| "insertion_sort lt (x # xs) = insert_by lt x (insertion_sort lt xs)"

text \<open>
  A completion with the action \<open>store\<close>, two facts and one context, and a completion
  with the action \<open>new_conversation\<close>.
\<close>

definition example_store_completion :: string where
  "example_store_completion =
     ''{'' @ DQ @ ''action'' @ DQ @ '':'' @ DQ @ ''store'' @ DQ @ '','' @
     DQ @ ''content'' @ DQ @ '':'' @ DQ @ ''Noted.'' @ DQ @ '','' @
     DQ @ ''store_info'' @ DQ @ '':{'' @
     DQ @ ''user_input'' @ DQ @ '':['' @ DQ @ ''fact A'' @ DQ @ '','' @
     DQ @ ''fact B'' @ DQ @ ''],'' @
     DQ @ ''bot_response'' @ DQ @ '':['' @ DQ @ ''ctx A'' @ DQ @ '']}}''"

definition example_new_conversation_completion :: string where
  "example_new_conversation_completion =
     ''{'' @ DQ @ ''action'' @ DQ @ '':'' @ DQ @ ''new_conversation'' @ DQ @ '','' @
     DQ @ ''content'' @ DQ @ '':'' @ DQ @ ''A new topic.'' @ DQ @ '','' @
     DQ @ ''new_title'' @ DQ @ '':'' @ DQ @ ''T'' @ DQ @ ''}''"

text \<open>
  The environment of the examples. Its library functions are tables of what Go answers
  on the strings the examples use: \<open>json.Unmarshal\<close> into an \<open>LLMResponse\<close> accepts the
  three objects listed and fails on the other strings used (\<open>Hello\<close>, \<open> hi\<close> with a
  leading blank, and a lone quote character), none of which is JSON;
  \<open>strconv.ParseFloat\<close> reads the numerals listed and fails on \<open>high\<close>; \<open>%.2f\<close>
  prints the four numbers listed (the examples print no other). The provider's script,
  the failing statements and the rows of the lexical search are parameters.
\<close>

definition example_env ::
  "(nat \<Rightarrow> string \<Rightarrow> string option) \<Rightarrow> (nat \<Rightarrow> bool) \<Rightarrow>
   (string \<times> int option \<times> int) list \<Rightarrow> env" where
  "example_env provider fails rows =
     \<lparr>json_Unmarshal =
        map_of
          [(''{'' @ DQ @ ''action'' @ DQ @ '':'' @ DQ @ ''reply'' @ DQ @ '','' @
            DQ @ ''content'' @ DQ @ '':'' @ DQ @ ''ok'' @ DQ @ ''}'',
            \<lparr>Action = ''reply'', Content = ''ok'',
             Store_Info = \<lparr>UserInput = [], BotResponse = []\<rparr>, NewTitle = []\<rparr>),
           (example_store_completion,
            \<lparr>Action = ''store'', Content = ''Noted.'',
             Store_Info =
               \<lparr>UserInput = [''fact A'', ''fact B''], BotResponse = [''ctx A'']\<rparr>,
             NewTitle = []\<rparr>),
           (example_new_conversation_completion,
            \<lparr>Action = ''new_conversation'', Content = ''A new topic.'',
             Store_Info = \<lparr>UserInput = [], BotResponse = []\<rparr>, NewTitle = ''T''\<rparr>)],
      json_Unmarshal_map = (\<lambda>s. None),
      ParseFloat =
        map_of [(''0.9'', Finite 0.9), (''0.5'', Finite 0.5), (''0.2'', Finite 0.2),
                (''5'', Finite 5)],
      Sprintf_2f =
        (\<lambda>x. if x = Finite 0.9 then ''0.90'' else if x = Finite 0.5 then ''0.50''
              else if x = Finite 0.2 then ''0.20'' else if x = Finite 5 then ''5.00''
              else []),
      sort_Slice = insertion_sort,
      Generate = provider,
      sql_fails = fails,
      CURRENT_TIMESTAMP = (\<lambda>n. 1700000000 + int n),
      MATCH_rows = (\<lambda>n q. rows),
      ORDER_BY_created_at_DESC =
        insertion_sort (\<lambda>a b. m_CreatedAt b < m_CreatedAt a)\<rparr>"

definition empty_world :: world where
  "empty_world =
     \<lparr>tbl_conversations = [], tbl_messages = [], tbl_knowledge = [],
      seq_conversations = 0, seq_messages = 0, seq_knowledge = 0,
      statements = 0, sent = []\<rparr>"

section \<open>The knowledge body: claim C9\<close>

lemma store_loop_blocks:
  "store_loop ui br i acc =
     acc @ concat (map (\<lambda>j. ''Information: '' @ ui ! j @ NL @
                             (if j < length br then ''Context: '' @ br ! j @ NL else []))
                       [i..<length ui])"
proof (induction ui br i acc rule: store_loop.induct)
  case (1 ui br i acc)
  show ?case
  proof (cases "i < length ui")
    case True
    show ?thesis
      by (subst store_loop.simps, subst "1.IH" [OF True])
         (use True in \<open>simp add: upt_conv_Cons\<close>)
  next
    case False
    then show ?thesis by (subst store_loop.simps) simp
  qed
qed

text \<open>
  Claim C9. The body rendered for a \<open>store\<close> action is the header line followed, for
  each index \<open>i\<close> of \<open>user_input\<close> in order, by the line \<open>Information: user_input[i]\<close>
  and then, exactly when \<open>i\<close> is below the length of \<open>bot_response\<close>, by the line
  \<open>Context: bot_response[i]\<close>. For the two facts \<open>fact A\<close>, \<open>fact B\<close> and the one
  context \<open>ctx A\<close> this gives two \<open>Information\<close> lines and one \<open>Context\<close> line, after
  the first of them.
\<close>

theorem render_store_lines:
  "render_store info =
     ''Knowledge Entry:'' @ NL @
     concat (map (\<lambda>i. ''Information: '' @ UserInput info ! i @ NL @
                       (if i < length (BotResponse info)
                        then ''Context: '' @ BotResponse info ! i @ NL else []))
                 [0..<length (UserInput info)])
   \<and> render_store \<lparr>UserInput = [''fact A'', ''fact B''], BotResponse = [''ctx A'']\<rparr> =
     ''Knowledge Entry:'' @ NL @ ''Information: fact A'' @ NL @ ''Context: ctx A'' @ NL @
     ''Information: fact B'' @ NL"
proof
  show "render_store info =
     ''Knowledge Entry:'' @ NL @
     concat (map (\<lambda>i. ''Information: '' @ UserInput info ! i @ NL @
                       (if i < length (BotResponse info)
                        then ''Context: '' @ BotResponse info ! i @ NL else []))
                 [0..<length (UserInput info)])"
    unfolding render_store_def store_loop_blocks by simp
  show "render_store \<lparr>UserInput = [''fact A'', ''fact B''], BotResponse = [''ctx A'']\<rparr> =
     ''Knowledge Entry:'' @ NL @ ''Information: fact A'' @ NL @ ''Context: ctx A'' @ NL @
     ''Information: fact B'' @ NL"
    by code_simp
qed

text \<open>The same with more contexts than facts: the second context is never printed.\<close>

theorem render_store_lines_witness:
  "render_store \<lparr>UserInput = [''a''], BotResponse = [''x'', ''y'']\<rparr> =
     ''Knowledge Entry:'' @ NL @ ''Information: a'' @ NL @ ''Context: x'' @ NL"
  using render_store_lines [of "\<lparr>UserInput = [''a''], BotResponse = [''x'', ''y'']\<rparr>"]
  by (simp add: upt_conv_Cons)

section \<open>The Response Interpreter: claims C1 and C3\<close>

lemma quoted_length:
  assumes "HasPrefix c DQ" and "c \<noteq> DQ"
  shows "2 \<le> length c"
proof -
  from assms(1) have "1 \<le> length c" and "take 1 c = DQ"
    by (simp_all add: HasPrefix_def)
  with assms(2) show ?thesis
    by (cases c) (auto simp: Suc_le_eq)
qed

lemma slice_inner:
  assumes "2 \<le> length c"
  shows "slice c 1 (int (length c) - 1) = Inr (butlast (tl c))"
proof -
  have "take (length c - 2) (drop 1 c) = butlast (tl c)"
    by (simp add: butlast_conv_take drop_Suc numeral_2_eq_2)
  moreover have "nat (int (length c) - 1 - 1) = length c - 2"
    by simp
  ultimately show ?thesis
    using assms by (simp add: slice_def)
qed

lemma cleanup_quote_only:
  assumes "TrimSpace (Content r) = DQ"
  shows "cleanup r = Inl (Panic_slice_bounds 1 0)"
  using assms by (simp add: cleanup_def HasPrefix_def HasSuffix_def slice_def)

lemma cleanup_other:
  assumes "TrimSpace (Content r) \<noteq> DQ"
  shows "cleanup r =
     Inr (r\<lparr>Content := (let c = TrimSpace (Content r) in
                          if HasPrefix c DQ \<and> HasSuffix c DQ then butlast (tl c) else c)\<rparr>)"
  using assms quoted_length [of "TrimSpace (Content r)"]
  by (simp add: cleanup_def Let_def slice_inner)

lemma example_json_None:
  "json_Unmarshal (example_env p f r) '' hi'' = None"
  "json_Unmarshal (example_env p f r) ''Hello'' = None"
  "json_Unmarshal (example_env p f r) DQ = None"
  by (simp_all add: example_env_def example_store_completion_def
      example_new_conversation_completion_def)

lemma TrimSpace_hi: "TrimSpace '' hi'' = ''hi''"
  by code_simp

lemma TrimSpace_DQ: "TrimSpace DQ = DQ"
  by code_simp

lemma TrimSpace_Hello: "TrimSpace ''Hello'' = ''Hello''"
  by code_simp

text \<open>
  Claim C1, as the code has it. When the completion does not parse, the action is
  \<open>reply\<close> and the content is the completion after the clean-up every response goes
  through: trimmed of surrounding white space and, when the trimmed text begins and ends
  with a double quote, without these two characters. The content is the raw completion
  only when the clean-up has nothing to remove. (A completion that trims to a lone quote
  character is the subject of claim C3.)
\<close>

theorem fallback_reply_cleaned:
  assumes "json_Unmarshal e completion = None" and "TrimSpace completion \<noteq> DQ"
  shows "interpret_completion e completion =
     Inr \<lparr>Action = ''reply'',
          Content = (let c = TrimSpace completion in
                     if HasPrefix c DQ \<and> HasSuffix c DQ then butlast (tl c) else c),
          Store_Info = \<lparr>UserInput = [], BotResponse = []\<rparr>, NewTitle = []\<rparr>"
  using assms by (simp add: interpret_completion_def parse_completion_def cleanup_other)

theorem fallback_reply_cleaned_witness:
  "json_Unmarshal (example_env (\<lambda>n p. None) (\<lambda>n. False) []) '' hi'' = None \<and>
   TrimSpace '' hi'' \<noteq> DQ \<and>
   interpret_completion (example_env (\<lambda>n p. None) (\<lambda>n. False) []) '' hi'' =
     Inr \<lparr>Action = ''reply'', Content = ''hi'',
          Store_Info = \<lparr>UserInput = [], BotResponse = []\<rparr>, NewTitle = []\<rparr>"
  using fallback_reply_cleaned [of "example_env (\<lambda>n p. None) (\<lambda>n. False) []" "'' hi''"]
  by (simp add: example_json_None TrimSpace_hi HasPrefix_def)

text \<open>
  The completion \<open> hi\<close> (a blank, then \<open>hi\<close>) is not JSON; the content returned for it
  is \<open>hi\<close>, not the raw text.
\<close>

theorem fallback_reply_raw_counterexample:
  "json_Unmarshal (example_env (\<lambda>n p. None) (\<lambda>n. False) []) '' hi'' = None \<and>
   interpret_completion (example_env (\<lambda>n p. None) (\<lambda>n. False) []) '' hi'' \<noteq>
     Inr \<lparr>Action = ''reply'', Content = '' hi'',
          Store_Info = \<lparr>UserInput = [], BotResponse = []\<rparr>, NewTitle = []\<rparr>"
  by (simp add: example_json_None interpret_completion_def parse_completion_def cleanup_def
      TrimSpace_hi HasPrefix_def)

text \<open>
  Claim C3 asks that the clean-up never fails. It does: when the completion does not
  parse and trims to a lone double quote, the content begins and ends with a quote, the
  slice expression is \<open>content[1:0]\<close>, and the turn panics.
\<close>

theorem quote_strip_panics:
  assumes "json_Unmarshal e completion = None" and "TrimSpace completion = DQ"
  shows "interpret_completion e completion = Inl (Panic_slice_bounds 1 0)"
  using assms by (simp add: interpret_completion_def parse_completion_def cleanup_quote_only)

theorem quote_strip_panics_witness:
  "json_Unmarshal (example_env (\<lambda>n p. None) (\<lambda>n. False) []) DQ = None \<and>
   TrimSpace DQ = DQ \<and>
   interpret_completion (example_env (\<lambda>n p. None) (\<lambda>n. False) []) DQ =
     Inl (Panic_slice_bounds 1 0)"
  using quote_strip_panics [of "example_env (\<lambda>n p. None) (\<lambda>n. False) []" DQ]
  by (simp add: example_json_None TrimSpace_DQ)

section \<open>Comparison of floats, and sorting\<close>

lemma f64_gt_not_NaN: "f64_gt x y \<Longrightarrow> x \<noteq> NaN \<and> y \<noteq> NaN"
  by (cases x; cases y) auto

lemma f64_gt_asym: "\<not> (f64_gt x y \<and> f64_gt y x)"
  by (cases x; cases y) auto

lemma f64_not_gt_trans:
  "x \<noteq> NaN \<Longrightarrow> y \<noteq> NaN \<Longrightarrow> z \<noteq> NaN \<Longrightarrow> \<not> f64_gt y x \<Longrightarrow> \<not> f64_gt z y \<Longrightarrow> \<not> f64_gt z x"
  by (cases x; cases y; cases z) auto

lemma f64_not_gt_ge: "x \<noteq> NaN \<Longrightarrow> y \<noteq> NaN \<Longrightarrow> \<not> f64_gt y x \<Longrightarrow> f64_ge x y"
  by (cases x; cases y) (auto simp: f64_ge_def)

lemma orders_asym: "orders A lt \<Longrightarrow> a \<in> A \<Longrightarrow> b \<in> A \<Longrightarrow> lt a b \<Longrightarrow> \<not> lt b a"
  unfolding orders_def by blast

lemma orders_trans:
  "orders A lt \<Longrightarrow> a \<in> A \<Longrightarrow> b \<in> A \<Longrightarrow> c \<in> A \<Longrightarrow> \<not> lt b a \<Longrightarrow> \<not> lt c b \<Longrightarrow> \<not> lt c a"
  unfolding orders_def by blast

lemma orders_subset: "orders A lt \<Longrightarrow> B \<subseteq> A \<Longrightarrow> orders B lt"
  unfolding orders_def by blast

lemma orders_Relevance:
  assumes "\<forall>r\<in>A. k_Relevance r \<noteq> NaN"
  shows "orders A (\<lambda>a b. f64_gt (k_Relevance a) (k_Relevance b))"
  unfolding orders_def
proof (intro conjI ballI impI)
  fix a b assume "a \<in> A" "b \<in> A"
  show "\<not> (f64_gt (k_Relevance a) (k_Relevance b) \<and> f64_gt (k_Relevance b) (k_Relevance a))"
    by (rule f64_gt_asym)
next
  fix a b c assume "a \<in> A" "b \<in> A" "c \<in> A"
    and h: "\<not> f64_gt (k_Relevance b) (k_Relevance a) \<and> \<not> f64_gt (k_Relevance c) (k_Relevance b)"
  have "k_Relevance a \<noteq> NaN" "k_Relevance b \<noteq> NaN" "k_Relevance c \<noteq> NaN"
    using assms \<open>a \<in> A\<close> \<open>b \<in> A\<close> \<open>c \<in> A\<close> by blast+
  then show "\<not> f64_gt (k_Relevance c) (k_Relevance a)"
    using h f64_not_gt_trans by blast
qed

lemma set_insert_by: "set (insert_by lt x xs) = insert x (set xs)"
  by (induction xs) auto

lemma mset_insert_by: "mset (insert_by lt x xs) = add_mset x (mset xs)"
  by (induction xs) auto

lemma mset_insertion_sort: "mset (insertion_sort lt xs) = mset xs"
  by (induction xs) (auto simp: mset_insert_by)

lemma set_insertion_sort: "set (insertion_sort lt xs) = set xs"
  by (induction xs) (auto simp: set_insert_by)

lemma sorted_insert_by:
  assumes "orders (insert x (set xs)) lt" and "sorted_wrt (\<lambda>a b. \<not> lt b a) xs"
  shows "sorted_wrt (\<lambda>a b. \<not> lt b a) (insert_by lt x xs)"
  using assms
proof (induction xs)
  case Nil
  then show ?case by simp
next
  case (Cons y ys)
  let ?A = "insert x (set (y # ys))"
  have ord: "orders (insert x (set ys)) lt"
    by (rule orders_subset [OF Cons.prems(1)]) auto
  have sorted_ys: "sorted_wrt (\<lambda>a b. \<not> lt b a) ys" and y_ys: "\<forall>z\<in>set ys. \<not> lt z y"
    using Cons.prems(2) by simp_all
  show ?case
  proof (cases "lt x y")
    case True
    have xy: "\<not> lt y x"
      by (rule orders_asym [OF Cons.prems(1) _ _ True]) simp_all
    have "\<not> lt z x" if "z \<in> set ys" for z
    proof (rule orders_trans [OF Cons.prems(1) _ _ _ xy])
      show "\<not> lt z y" using y_ys that by blast
    qed (use that in simp_all)
    then show ?thesis
      using True xy sorted_ys y_ys by simp
  next
    case False
    have "sorted_wrt (\<lambda>a b. \<not> lt b a) (insert_by lt x ys)"
      by (rule Cons.IH [OF ord sorted_ys])
    then show ?thesis
      using False y_ys by (simp add: set_insert_by)
  qed
qed

lemma sorted_insertion_sort:
  "orders (set xs) lt \<Longrightarrow> sorted_wrt (\<lambda>a b. \<not> lt b a) (insertion_sort lt xs)"
proof (induction xs)
  case Nil
  then show ?case by simp
next
  case (Cons x xs)
  have "orders (set xs) lt"
    by (rule orders_subset [OF Cons.prems]) auto
  then have "sorted_wrt (\<lambda>a b. \<not> lt b a) (insertion_sort lt xs)"
    by (rule Cons.IH)
  moreover have "orders (insert x (set (insertion_sort lt xs))) lt"
    using Cons.prems by (simp add: set_insertion_sort)
  ultimately show ?case
    by (simp add: sorted_insert_by)
qed

lemma sorts_insertion_sort: "sorts insertion_sort"
  unfolding sorts_def by (simp add: mset_insertion_sort sorted_insertion_sort)

lemma example_sorts: "sorts (sort_Slice (example_env p f r))"
  by (simp add: example_env_def sorts_insertion_sort)

section \<open>The Knowledge Retriever: claims C2, C4 and C8\<close>

lemma example_env_sel:
  "sql_fails (example_env p f r) = f"
  "Generate (example_env p f r) = p"
  "CURRENT_TIMESTAMP (example_env p f r) n = 1700000000 + int n"
  "MATCH_rows (example_env p f r) n q = r"
  by (simp_all add: example_env_def)

lemma score_loop_Cons:
  "score_loop e q (c # cs) acc w =
     (case Generate e (length (sent w)) (relevance_prompt q (cand_Content c)) of
        None \<Rightarrow>
          (Inl (Wrapped ''failed to evaluate relevance'' (Provider_error (length (sent w)))),
           w\<lparr>sent := sent w @ [relevance_prompt q (cand_Content c)]\<rparr>)
      | Some completion \<Rightarrow>
          score_loop e q cs
            (if f64_gt (parse_relevance e completion) (Finite 0.3)
             then acc @ [\<lparr>k_Content = cand_Content c,
                          k_Relevance = parse_relevance e completion,
                          k_CreatedAt = cand_CreatedAt c\<rparr>]
             else acc)
            (w\<lparr>sent := sent w @ [relevance_prompt q (cand_Content c)]\<rparr>))"
  by (simp add: GenerateFromSinglePrompt_def Let_def split: option.split)

lemma score_loop_above:
  assumes "score_loop e q cs acc w = (Inr rs, w')"
    and "\<forall>r\<in>set acc. f64_gt (k_Relevance r) (Finite 0.3)"
  shows "\<forall>r\<in>set rs. f64_gt (k_Relevance r) (Finite 0.3)"
  using assms
proof (induction cs arbitrary: acc w)
  case Nil
  then show ?case by simp
next
  case (Cons c cs)
  show ?case
  proof (cases "Generate e (length (sent w)) (relevance_prompt q (cand_Content c))")
    case None
    with Cons.prems(1) show ?thesis by (simp add: score_loop_Cons del: score_loop.simps)
  next
    case (Some completion)
    let ?acc = "if f64_gt (parse_relevance e completion) (Finite 0.3)
             then acc @ [\<lparr>k_Content = cand_Content c,
                          k_Relevance = parse_relevance e completion,
                          k_CreatedAt = cand_CreatedAt c\<rparr>]
             else acc"
    from Cons.prems(1) Some
    have run: "score_loop e q cs ?acc
        (w\<lparr>sent := sent w @ [relevance_prompt q (cand_Content c)]\<rparr>) = (Inr rs, w')"
      by (simp add: score_loop_Cons del: score_loop.simps)
    have "\<forall>r\<in>set ?acc. f64_gt (k_Relevance r) (Finite 0.3)"
      using Cons.prems(2) by simp
    with run show ?thesis by (rule Cons.IH)
  qed
qed

lemma db_SearchKnowledge_sent:
  assumes "db_SearchKnowledge e w q = (x, w1)"
  shows "sent w1 = sent w"
  using assms by (auto simp: db_SearchKnowledge_def Let_def split: if_splits)

lemma score_loop_during:
  assumes "score_loop e q cs acc w = (Inr rs, w')"
    and "N \<le> length (sent w)"
    and "\<forall>r\<in>set acc. \<exists>n c. N \<le> n \<and> n < length (sent w) \<and>
           Generate e n (sent w ! n) = Some c \<and>
           ParseFloat e (TrimSpace c) = Some (k_Relevance r)"
  shows "\<forall>r\<in>set rs. \<exists>n c. N \<le> n \<and> n < length (sent w') \<and>
           Generate e n (sent w' ! n) = Some c \<and>
           ParseFloat e (TrimSpace c) = Some (k_Relevance r)"
  using assms
proof (induction cs arbitrary: acc w)
  case Nil
  then show ?case by simp
next
  case (Cons c cs)
  let ?p = "relevance_prompt q (cand_Content c)"
  let ?w1 = "w\<lparr>sent := sent w @ [?p]\<rparr>"
  show ?case
  proof (cases "Generate e (length (sent w)) ?p")
    case None
    with Cons.prems(1) show ?thesis by (simp add: score_loop_Cons del: score_loop.simps)
  next
    case (Some completion)
    let ?new = "\<lparr>k_Content = cand_Content c,
                 k_Relevance = parse_relevance e completion,
                 k_CreatedAt = cand_CreatedAt c\<rparr>"
    let ?acc = "if f64_gt (parse_relevance e completion) (Finite 0.3)
                then acc @ [?new] else acc"
    from Cons.prems(1) Some
    have run: "score_loop e q cs ?acc ?w1 = (Inr rs, w')"
      by (simp add: score_loop_Cons del: score_loop.simps)
    have len: "N \<le> length (sent ?w1)"
      using Cons.prems(2) by simp
    have old: "\<exists>n c. N \<le> n \<and> n < length (sent ?w1) \<and>
           Generate e n (sent ?w1 ! n) = Some c \<and>
           ParseFloat e (TrimSpace c) = Some (k_Relevance r)" if "r \<in> set acc" for r
    proof -
      from Cons.prems(3) that obtain n c' where
        "N \<le> n" "n < length (sent w)" "Generate e n (sent w ! n) = Some c'"
        "ParseFloat e (TrimSpace c') = Some (k_Relevance r)"
        by blast
      then show ?thesis
        by (intro exI [of _ n] conjI exI [of _ c']) (simp_all add: nth_append)
    qed
    have new: "\<exists>n c. N \<le> n \<and> n < length (sent ?w1) \<and>
           Generate e n (sent ?w1 ! n) = Some c \<and>
           ParseFloat e (TrimSpace c) = Some (k_Relevance ?new)"
      if gt: "f64_gt (parse_relevance e completion) (Finite 0.3)"
    proof -
      have "ParseFloat e (TrimSpace completion) = Some (parse_relevance e completion)"
        using gt by (auto simp: parse_relevance_def split: option.splits)
      with Some Cons.prems(2) show ?thesis
        by (intro exI [of _ "length (sent w)"] conjI exI [of _ completion]) simp_all
    qed
    have "\<forall>r\<in>set ?acc. \<exists>n c. N \<le> n \<and> n < length (sent ?w1) \<and>
           Generate e n (sent ?w1 ! n) = Some c \<and>
           ParseFloat e (TrimSpace c) = Some (k_Relevance r)"
      using old new by auto
    with run len show ?thesis by (rule Cons.IH)
  qed
qed

lemma score_loop_keeps:
  assumes "score_loop e q cs acc w = (Inr rs, w')"
  shows "set acc \<subseteq> set rs \<and>
     (\<forall>i<length cs. \<forall>completion v.
        Generate e (length (sent w) + i) (relevance_prompt q (cand_Content (cs ! i))) =
          Some completion \<and>
        ParseFloat e (TrimSpace completion) = Some v \<and> f64_gt v (Finite 0.3) \<longrightarrow>
        \<lparr>k_Content = cand_Content (cs ! i), k_Relevance = v,
         k_CreatedAt = cand_CreatedAt (cs ! i)\<rparr> \<in> set rs)"
  using assms
proof (induction cs arbitrary: acc w)
  case Nil
  then show ?case by simp
next
  case (Cons c cs)
  let ?p = "relevance_prompt q (cand_Content c)"
  let ?w1 = "w\<lparr>sent := sent w @ [?p]\<rparr>"
  show ?case
  proof (cases "Generate e (length (sent w)) ?p")
    case None
    with Cons.prems show ?thesis by (simp add: score_loop_Cons del: score_loop.simps)
  next
    case (Some completion0)
    let ?new = "\<lparr>k_Content = cand_Content c,
                 k_Relevance = parse_relevance e completion0,
                 k_CreatedAt = cand_CreatedAt c\<rparr>"
    let ?acc = "if f64_gt (parse_relevance e completion0) (Finite 0.3)
                then acc @ [?new] else acc"
    from Cons.prems Some
    have run: "score_loop e q cs ?acc ?w1 = (Inr rs, w')"
      by (simp add: score_loop_Cons del: score_loop.simps)
    note IH = Cons.IH [OF run]
    from IH have sub: "set ?acc \<subseteq> set rs"
      by (rule conjunct1)
    from IH have rest: "\<forall>i<length cs. \<forall>completion v.
        Generate e (length (sent ?w1) + i) (relevance_prompt q (cand_Content (cs ! i))) =
          Some completion \<and>
        ParseFloat e (TrimSpace completion) = Some v \<and> f64_gt v (Finite 0.3) \<longrightarrow>
        \<lparr>k_Content = cand_Content (cs ! i), k_Relevance = v,
         k_CreatedAt = cand_CreatedAt (cs ! i)\<rparr> \<in> set rs"
      by (rule conjunct2)
    have a: "set acc \<subseteq> set rs"
      using sub by (auto split: if_splits)
    have b: "\<lparr>k_Content = cand_Content ((c # cs) ! i), k_Relevance = v,
         k_CreatedAt = cand_CreatedAt ((c # cs) ! i)\<rparr> \<in> set rs"
      if i: "i < length (c # cs)"
        and g: "Generate e (length (sent w) + i)
                  (relevance_prompt q (cand_Content ((c # cs) ! i))) = Some completion"
        and p: "ParseFloat e (TrimSpace completion) = Some v"
        and gt: "f64_gt v (Finite 0.3)"
      for i completion v
    proof (cases i)
      case 0
      with g Some have "completion = completion0"
        by simp
      with p have "parse_relevance e completion0 = v"
        by (simp add: parse_relevance_def)
      with gt have "\<lparr>k_Content = cand_Content c, k_Relevance = v,
          k_CreatedAt = cand_CreatedAt c\<rparr> \<in> set ?acc"
        by simp
      with sub 0 show ?thesis
        by auto
    next
      case (Suc j)
      with i have j: "j < length cs"
        by simp
      from g Suc have "Generate e (length (sent ?w1) + j)
          (relevance_prompt q (cand_Content (cs ! j))) = Some completion"
        by simp
      with rest j p gt have "\<lparr>k_Content = cand_Content (cs ! j), k_Relevance = v,
         k_CreatedAt = cand_CreatedAt (cs ! j)\<rparr> \<in> set rs"
        by blast
      with Suc show ?thesis
        by simp
    qed
    show ?thesis
      using a b by blast
  qed
qed

lemma score_loop_error:
  assumes "score_loop e q cs acc w = (Inl err, w')"
  shows "\<exists>x. err = Wrapped ''failed to evaluate relevance'' x"
  using assms
proof (induction cs arbitrary: acc w)
  case Nil
  then show ?case by simp
next
  case (Cons c cs)
  show ?case
  proof (cases "Generate e (length (sent w)) (relevance_prompt q (cand_Content c))")
    case None
    with Cons.prems show ?thesis
      by (auto simp add: score_loop_Cons simp del: score_loop.simps)
  next
    case (Some completion)
    with Cons.prems show ?thesis
      by (auto simp add: score_loop_Cons simp del: score_loop.simps intro: Cons.IH)
  qed
qed

lemma SearchKnowledge_Inr:
  assumes "SearchKnowledge e w query = (Inr rs, w')"
  obtains results w1 kr where
    "db_SearchKnowledge e w query = (Inr results, w1)"
    "score_loop e query results [] w1 = (Inr kr, w')"
    "rs = sort_Slice e (\<lambda>a b. f64_gt (k_Relevance a) (k_Relevance b)) kr"
  using assms
  by (auto simp: SearchKnowledge_def split: prod.splits sum.splits)

lemma SearchKnowledge_error:
  assumes "SearchKnowledge e w q = (Inl err, w')"
  shows "\<exists>x. err = Wrapped ''failed to search knowledge base'' x \<or>
             err = Wrapped ''failed to evaluate relevance'' x"
  using assms score_loop_error
  by (fastforce simp: SearchKnowledge_def split: prod.splits sum.splits)

lemma sorted_results:
  assumes "sorts (sort_Slice e)"
    and "\<forall>r\<in>set kr. f64_gt (k_Relevance r) (Finite 0.3)"
  shows "set (sort_Slice e (\<lambda>a b. f64_gt (k_Relevance a) (k_Relevance b)) kr) = set kr"
    and "sorted_wrt (\<lambda>a b. f64_ge (k_Relevance a) (k_Relevance b))
           (sort_Slice e (\<lambda>a b. f64_gt (k_Relevance a) (k_Relevance b)) kr)"
proof -
  let ?lt = "\<lambda>a b. f64_gt (k_Relevance a) (k_Relevance b)"
  let ?rs = "sort_Slice e ?lt kr"
  have nn: "\<forall>r\<in>set kr. k_Relevance r \<noteq> NaN"
    using assms(2) f64_gt_not_NaN by blast
  then have "orders (set kr) ?lt"
    by (rule orders_Relevance)
  with assms(1) have m: "mset ?rs = mset kr" and s: "sorted_wrt (\<lambda>a b. \<not> ?lt b a) ?rs"
    unfolding sorts_def by blast+
  from m show set_eq: "set ?rs = set kr"
    by (rule mset_eq_setD)
  show "sorted_wrt (\<lambda>a b. f64_ge (k_Relevance a) (k_Relevance b)) ?rs"
  proof (rule sorted_wrt_mono_rel [OF _ s])
    fix a b assume "a \<in> set ?rs" "b \<in> set ?rs" "\<not> f64_gt (k_Relevance b) (k_Relevance a)"
    with nn set_eq show "f64_ge (k_Relevance a) (k_Relevance b)"
      by (simp add: f64_not_gt_ge)
  qed
qed

lemma example_search_three:
  "SearchKnowledge
     (example_env (\<lambda>n p. if n = 0 then Some ''0.5'' else if n = 1 then Some ''high''
                         else Some (''0.9'' @ NL))
        (\<lambda>n. False) [(''a'', Some 1, 10), (''b'', Some 1, 20), (''c'', Some 1, 30)])
     empty_world ''q'' =
   (Inr [\<lparr>k_Content = ''c'', k_Relevance = Finite 0.9, k_CreatedAt = 30\<rparr>,
         \<lparr>k_Content = ''a'', k_Relevance = Finite 0.5, k_CreatedAt = 10\<rparr>],
    empty_world\<lparr>statements := 3,
      sent := [relevance_prompt ''q'' ''a'', relevance_prompt ''q'' ''b'',
               relevance_prompt ''q'' ''c'']\<rparr>)"
  by code_simp

lemma example_search_five:
  "SearchKnowledge (example_env (\<lambda>n p. Some ''5'') (\<lambda>n. False) [(''a'', Some 1, 10)])
     empty_world ''q'' =
   (Inr [\<lparr>k_Content = ''a'', k_Relevance = Finite 5, k_CreatedAt = 10\<rparr>],
    empty_world\<lparr>statements := 3, sent := [relevance_prompt ''q'' ''a'']\<rparr>)"
  by code_simp


text \<open>
  Claim C2. Whatever candidates the store returns and whatever the provider answers for
  them, when the Knowledge Retriever returns a list, every result in it has a relevance
  strictly greater than \<open>0.3\<close>, and the list is in non-increasing order of relevance.
  (\<open>sort.Slice\<close> is taken to sort, as \<^const>\<open>sorts\<close> says.)
\<close>

theorem SearchKnowledge_filtered_sorted:
  assumes "sorts (sort_Slice e)"
    and "SearchKnowledge e w query = (Inr rs, w')"
  shows "(\<forall>r\<in>set rs. f64_gt (k_Relevance r) (Finite 0.3)) \<and>
         sorted_wrt (\<lambda>a b. f64_ge (k_Relevance a) (k_Relevance b)) rs"
proof -
  from assms(2) obtain results w1 kr where
    loop: "score_loop e query results [] w1 = (Inr kr, w')" and
    rs: "rs = sort_Slice e (\<lambda>a b. f64_gt (k_Relevance a) (k_Relevance b)) kr"
    by (rule SearchKnowledge_Inr)
  have above: "\<forall>r\<in>set kr. f64_gt (k_Relevance r) (Finite 0.3)"
    using loop by (rule score_loop_above) simp
  show ?thesis
    unfolding rs using sorted_results [OF assms(1) above] above by simp
qed

text \<open>Three candidates scored \<open>0.5\<close>, \<open>high\<close> and \<open>0.9\<close>: the second is dropped,
  the third comes first.\<close>

theorem SearchKnowledge_filtered_sorted_witness:
  "sorts (sort_Slice
     (example_env (\<lambda>n p. if n = 0 then Some ''0.5'' else if n = 1 then Some ''high''
                         else Some (''0.9'' @ NL))
        (\<lambda>n. False) [(''a'', Some 1, 10), (''b'', Some 1, 20), (''c'', Some 1, 30)])) \<and>
   fst (SearchKnowledge
     (example_env (\<lambda>n p. if n = 0 then Some ''0.5'' else if n = 1 then Some ''high''
                         else Some (''0.9'' @ NL))
        (\<lambda>n. False) [(''a'', Some 1, 10), (''b'', Some 1, 20), (''c'', Some 1, 30)])
     empty_world ''q'') =
     Inr [\<lparr>k_Content = ''c'', k_Relevance = Finite 0.9, k_CreatedAt = 30\<rparr>,
          \<lparr>k_Content = ''a'', k_Relevance = Finite 0.5, k_CreatedAt = 10\<rparr>] \<and>
   f64_gt (Finite 0.9) (Finite 0.3) \<and> f64_gt (Finite 0.5) (Finite 0.3) \<and>
   f64_ge (Finite 0.9) (Finite 0.5)"
  using SearchKnowledge_filtered_sorted [OF example_sorts example_search_three]
    example_sorts example_search_three
  by simp

text \<open>
  Claim C4, as the code has it. The relevance of a returned result is strictly greater
  than \<open>0.3\<close> (so never below \<open>0.0\<close>), and it is the number that
  \<open>strconv.ParseFloat\<close> read from the completion of one of the scoring calls of this
  very retrieval (a call made after the prompts already sent when the retrieval began).
  The code does not clamp the number and has no upper bound: for each candidate the store
  returned, whenever the completion of its scoring call parses to a number above \<open>0.3\<close>,
  however large, the candidate is returned with exactly that number as its relevance.
\<close>

theorem relevance_unbounded_above:
  assumes "sorts (sort_Slice e)"
    and "SearchKnowledge e w query = (Inr rs, w')"
  shows "(\<forall>r\<in>set rs.
            f64_gt (k_Relevance r) (Finite 0.3) \<and>
            (\<exists>n completion.
               length (sent w) \<le> n \<and> n < length (sent w') \<and>
               Generate e n (sent w' ! n) = Some completion \<and>
               ParseFloat e (TrimSpace completion) = Some (k_Relevance r))) \<and>
         (\<exists>results w1.
            db_SearchKnowledge e w query = (Inr results, w1) \<and>
            (\<forall>i<length results. \<forall>completion v.
               Generate e (length (sent w) + i)
                 (relevance_prompt query (cand_Content (results ! i))) = Some completion \<and>
               ParseFloat e (TrimSpace completion) = Some v \<and>
               f64_gt v (Finite 0.3) \<longrightarrow>
               \<lparr>k_Content = cand_Content (results ! i), k_Relevance = v,
                k_CreatedAt = cand_CreatedAt (results ! i)\<rparr> \<in> set rs))"
proof -
  from assms(2) obtain results w1 kr where
    db: "db_SearchKnowledge e w query = (Inr results, w1)" and
    loop: "score_loop e query results [] w1 = (Inr kr, w')" and
    rs: "rs = sort_Slice e (\<lambda>a b. f64_gt (k_Relevance a) (k_Relevance b)) kr"
    by (rule SearchKnowledge_Inr)
  have s: "sent w1 = sent w"
    using db by (rule db_SearchKnowledge_sent)
  have above: "\<forall>r\<in>set kr. f64_gt (k_Relevance r) (Finite 0.3)"
    using loop by (rule score_loop_above) simp
  have set_eq: "set rs = set kr"
    unfolding rs by (rule sorted_results(1) [OF assms(1) above])
  have during: "\<forall>r\<in>set kr. \<exists>n c. length (sent w) \<le> n \<and> n < length (sent w') \<and>
           Generate e n (sent w' ! n) = Some c \<and>
           ParseFloat e (TrimSpace c) = Some (k_Relevance r)"
    using loop by (rule score_loop_during) (simp_all add: s)
  have keeps: "\<forall>i<length results. \<forall>completion v.
        Generate e (length (sent w) + i)
          (relevance_prompt query (cand_Content (results ! i))) = Some completion \<and>
        ParseFloat e (TrimSpace completion) = Some v \<and> f64_gt v (Finite 0.3) \<longrightarrow>
        \<lparr>k_Content = cand_Content (results ! i), k_Relevance = v,
         k_CreatedAt = cand_CreatedAt (results ! i)\<rparr> \<in> set rs"
    using score_loop_keeps [OF loop] unfolding s set_eq by (rule conjunct2)
  have first: "\<forall>r\<in>set rs.
            f64_gt (k_Relevance r) (Finite 0.3) \<and>
            (\<exists>n completion.
               length (sent w) \<le> n \<and> n < length (sent w') \<and>
               Generate e n (sent w' ! n) = Some completion \<and>
               ParseFloat e (TrimSpace completion) = Some (k_Relevance r))"
    unfolding set_eq using above during by blast
  have second: "\<exists>results w1.
            db_SearchKnowledge e w query = (Inr results, w1) \<and>
            (\<forall>i<length results. \<forall>completion v.
               Generate e (length (sent w) + i)
                 (relevance_prompt query (cand_Content (results ! i))) = Some completion \<and>
               ParseFloat e (TrimSpace completion) = Some v \<and>
               f64_gt v (Finite 0.3) \<longrightarrow>
               \<lparr>k_Content = cand_Content (results ! i), k_Relevance = v,
                k_CreatedAt = cand_CreatedAt (results ! i)\<rparr> \<in> set rs)"
    by (rule exI [of _ results], rule exI [of _ w1]) (rule conjI [OF db keeps])
  from first second show ?thesis
    by (rule conjI)
qed

text \<open>The provider answers \<open>5\<close> for the one candidate: it is returned with relevance
  \<open>5.0\<close>, the number parsed.\<close>

theorem relevance_unbounded_above_witness:
  "sorts (sort_Slice (example_env (\<lambda>n p. Some ''5'') (\<lambda>n. False) [(''a'', Some 1, 10)])) \<and>
   fst (SearchKnowledge (example_env (\<lambda>n p. Some ''5'') (\<lambda>n. False) [(''a'', Some 1, 10)])
     empty_world ''q'') =
     Inr [\<lparr>k_Content = ''a'', k_Relevance = Finite 5, k_CreatedAt = 10\<rparr>] \<and>
   f64_gt (Finite 5) (Finite 0.3) \<and>
   fst (db_SearchKnowledge
     (example_env (\<lambda>n p. Some ''5'') (\<lambda>n. False) [(''a'', Some 1, 10)]) empty_world ''q'') =
     Inr [\<lparr>cand_Content = ''a'', cand_ConversationID = 1, cand_CreatedAt = 10\<rparr>] \<and>
   Generate (example_env (\<lambda>n p. Some ''5'') (\<lambda>n. False) [(''a'', Some 1, 10)])
     (length (sent empty_world) + 0) (relevance_prompt ''q'' ''a'') = Some ''5'' \<and>
   ParseFloat (example_env (\<lambda>n p. Some ''5'') (\<lambda>n. False) [(''a'', Some 1, 10)])
     (TrimSpace ''5'') = Some (Finite 5) \<and>
   \<lparr>k_Content = ''a'', k_Relevance = Finite 5, k_CreatedAt = 10\<rparr> \<in>
     set [\<lparr>k_Content = ''a'', k_Relevance = Finite 5, k_CreatedAt = 10\<rparr>]"
proof -
  let ?e = "example_env (\<lambda>n p. Some ''5'') (\<lambda>n. False) [(''a'', Some 1, 10)]"
  let ?r = "\<lparr>k_Content = ''a'', k_Relevance = Finite 5, k_CreatedAt = 10\<rparr>"
  let ?c = "\<lparr>cand_Content = ''a'', cand_ConversationID = 1, cand_CreatedAt = 10\<rparr>"
  have p: "ParseFloat ?e (TrimSpace ''5'') = Some (Finite 5)"
    by code_simp
  have m: "?r \<in> set [?r]"
    by simp
  have gt: "f64_gt (k_Relevance ?r) (Finite 0.3)"
    by (rule relevance_unbounded_above [OF example_sorts example_search_five,
          THEN conjunct1, rule_format, OF m, THEN conjunct1])
  have db: "db_SearchKnowledge ?e empty_world ''q'' =
      (Inr [?c], empty_world\<lparr>statements := 3\<rparr>)"
    by code_simp
  from relevance_unbounded_above [OF example_sorts example_search_five, THEN conjunct2]
  obtain results w1 where
    db': "db_SearchKnowledge ?e empty_world ''q'' = (Inr results, w1)" and
    keeps: "\<forall>i<length results. \<forall>completion v.
               Generate ?e (length (sent empty_world) + i)
                 (relevance_prompt ''q'' (cand_Content (results ! i))) = Some completion \<and>
               ParseFloat ?e (TrimSpace completion) = Some v \<and>
               f64_gt v (Finite 0.3) \<longrightarrow>
               \<lparr>k_Content = cand_Content (results ! i), k_Relevance = v,
                k_CreatedAt = cand_CreatedAt (results ! i)\<rparr> \<in> set [?r]"
    by (elim exE conjE)
  from db db' have res: "results = [?c]"
    by simp
  have g: "Generate ?e (length (sent empty_world) + 0) (relevance_prompt ''q'' ''a'') = Some ''5''"
    by (simp add: example_env_sel)
  have h: "Generate ?e (length (sent empty_world) + 0)
                 (relevance_prompt ''q'' (cand_Content (results ! 0))) = Some ''5'' \<and>
               ParseFloat ?e (TrimSpace ''5'') = Some (Finite 5) \<and>
               f64_gt (Finite 5) (Finite 0.3)"
    using g p gt by (simp add: res)
  have l: "0 < length results"
    by (simp add: res)
  have "\<lparr>k_Content = cand_Content (results ! 0), k_Relevance = Finite 5,
         k_CreatedAt = cand_CreatedAt (results ! 0)\<rparr> \<in> set [?r]"
    by (rule keeps [rule_format, OF l h])
  then have mem: "?r \<in> set [?r]"
    by (simp add: res)
  have d: "fst (db_SearchKnowledge ?e empty_world ''q'') = Inr [?c]"
    by (simp add: db)
  have s: "fst (SearchKnowledge ?e empty_world ''q'') = Inr [?r]"
    by (simp add: example_search_five)
  have g5: "f64_gt (Finite 5) (Finite 0.3)"
    using gt by simp
  from example_sorts s g5 d g p mem show ?thesis
    by (intro conjI)
qed

text \<open>The provider answers \<open>5\<close>: the result is returned with relevance \<open>5.0\<close>, above
  \<open>1.0\<close>.\<close>

theorem relevance_above_one_counterexample:
  "fst (SearchKnowledge (example_env (\<lambda>n p. Some ''5'') (\<lambda>n. False) [(''a'', Some 1, 10)])
     empty_world ''q'') =
     Inr [\<lparr>k_Content = ''a'', k_Relevance = Finite 5, k_CreatedAt = 10\<rparr>] \<and>
   \<not> f64_ge (Finite 1) (Finite 5)"
  by (simp add: example_search_five f64_ge_def)



section \<open>Deleting a conversation: claim C5\<close>

lemma DeleteConversation_succeeds_iff:
  "fst (db_DeleteConversation e w ident) = Inr () \<longleftrightarrow>
     (\<forall>i<5. \<not> sql_fails e (statements w + i))"
proof -
  have "(\<forall>i<5. \<not> sql_fails e (statements w + i)) \<longleftrightarrow>
      \<not> sql_fails e (statements w) \<and> \<not> sql_fails e (statements w + 1) \<and>
      \<not> sql_fails e (statements w + 2) \<and> \<not> sql_fails e (statements w + 3) \<and>
      \<not> sql_fails e (statements w + 4)"
  proof
    assume a: "\<forall>i<5. \<not> sql_fails e (statements w + i)"
    have "\<not> sql_fails e (statements w + 0)" using a [rule_format, of 0] by simp
    moreover have "\<not> sql_fails e (statements w + 1)" using a [rule_format, of 1] by simp
    moreover have "\<not> sql_fails e (statements w + 2)" using a [rule_format, of 2] by simp
    moreover have "\<not> sql_fails e (statements w + 3)" using a [rule_format, of 3] by simp
    moreover have "\<not> sql_fails e (statements w + 4)" using a [rule_format, of 4] by simp
    ultimately show "\<not> sql_fails e (statements w) \<and> \<not> sql_fails e (statements w + 1) \<and>
      \<not> sql_fails e (statements w + 2) \<and> \<not> sql_fails e (statements w + 3) \<and>
      \<not> sql_fails e (statements w + 4)" by simp
  next
    assume a: "\<not> sql_fails e (statements w) \<and> \<not> sql_fails e (statements w + 1) \<and>
      \<not> sql_fails e (statements w + 2) \<and> \<not> sql_fails e (statements w + 3) \<and>
      \<not> sql_fails e (statements w + 4)"
    show "\<forall>i<5. \<not> sql_fails e (statements w + i)"
    proof (intro allI impI)
      fix i :: nat assume "i < 5"
      then consider "i = 0" | "i = 1" | "i = 2" | "i = 3" | "i = 4" by linarith
      then show "\<not> sql_fails e (statements w + i)" using a by cases simp_all
    qed
  qed
  then show ?thesis
    by (simp add: db_DeleteConversation_def Let_def)
qed

text \<open>
  Claim C5, as the code has it. \<open>DeleteConversation\<close> succeeds exactly when none of its
  five statements fails. It then deletes every knowledge entry owned by the conversation;
  the entries owned by another conversation or by none stay as they were, in their
  order. When it fails, the table of knowledge is unchanged. No entry is detached.
\<close>

theorem DeleteConversation_deletes_owned_knowledge:
  "(fst (db_DeleteConversation e w ident) = Inr () \<longleftrightarrow>
      (\<forall>i<5. \<not> sql_fails e (statements w + i))) \<and>
   tbl_knowledge (snd (db_DeleteConversation e w ident)) =
     (if fst (db_DeleteConversation e w ident) = Inr ()
      then filter (\<lambda>k. kn_conversation_id k \<noteq> Some ident) (tbl_knowledge w)
      else tbl_knowledge w)"
proof
  show "fst (db_DeleteConversation e w ident) = Inr () \<longleftrightarrow>
      (\<forall>i<5. \<not> sql_fails e (statements w + i))"
    by (rule DeleteConversation_succeeds_iff)
  show "tbl_knowledge (snd (db_DeleteConversation e w ident)) =
     (if fst (db_DeleteConversation e w ident) = Inr ()
      then filter (\<lambda>k. kn_conversation_id k \<noteq> Some ident) (tbl_knowledge w)
      else tbl_knowledge w)"
    by (simp add: db_DeleteConversation_def Let_def)
qed

theorem DeleteConversation_deletes_owned_knowledge_witness:
  "fst (db_DeleteConversation (example_env (\<lambda>n p. None) (\<lambda>n. False) [])
          (empty_world\<lparr>
             tbl_knowledge :=
               [\<lparr>kn_id = 1, kn_content = ''fact'', kn_conversation_id = Some 1,
                 kn_created_at = 0\<rparr>,
                \<lparr>kn_id = 2, kn_content = ''other'', kn_conversation_id = Some 2,
                 kn_created_at = 0\<rparr>,
                \<lparr>kn_id = 3, kn_content = ''free'', kn_conversation_id = None,
                 kn_created_at = 0\<rparr>]\<rparr>) 1) = Inr () \<and>
   tbl_knowledge (snd (db_DeleteConversation (example_env (\<lambda>n p. None) (\<lambda>n. False) [])
          (empty_world\<lparr>
             tbl_knowledge :=
               [\<lparr>kn_id = 1, kn_content = ''fact'', kn_conversation_id = Some 1,
                 kn_created_at = 0\<rparr>,
                \<lparr>kn_id = 2, kn_content = ''other'', kn_conversation_id = Some 2,
                 kn_created_at = 0\<rparr>,
                \<lparr>kn_id = 3, kn_content = ''free'', kn_conversation_id = None,
                 kn_created_at = 0\<rparr>]\<rparr>) 1)) =
     [\<lparr>kn_id = 2, kn_content = ''other'', kn_conversation_id = Some 2, kn_created_at = 0\<rparr>,
      \<lparr>kn_id = 3, kn_content = ''free'', kn_conversation_id = None, kn_created_at = 0\<rparr>]"
proof -
  let ?e = "example_env (\<lambda>n p. None) (\<lambda>n. False) []"
  let ?w = "empty_world\<lparr>
             tbl_knowledge :=
               [\<lparr>kn_id = 1, kn_content = ''fact'', kn_conversation_id = Some 1,
                 kn_created_at = 0\<rparr>,
                \<lparr>kn_id = 2, kn_content = ''other'', kn_conversation_id = Some 2,
                 kn_created_at = 0\<rparr>,
                \<lparr>kn_id = 3, kn_content = ''free'', kn_conversation_id = None,
                 kn_created_at = 0\<rparr>]\<rparr>"
  have ok: "\<forall>i<5. \<not> sql_fails ?e (statements ?w + i)"
    by (simp add: example_env_sel)
  with DeleteConversation_deletes_owned_knowledge [of ?e ?w 1] show ?thesis
    by simp
qed

text \<open>The one knowledge entry of conversation 1 is gone once the conversation is
  deleted.\<close>

theorem DeleteConversation_detaches_counterexample:
  "fst (db_DeleteConversation (example_env (\<lambda>n p. None) (\<lambda>n. False) [])
          (empty_world\<lparr>
             tbl_conversations := [\<lparr>c_ID = 1, c_Title = ''t'', c_CreatedAt = 0\<rparr>],
             tbl_knowledge :=
               [\<lparr>kn_id = 1, kn_content = ''fact'', kn_conversation_id = Some 1,
                 kn_created_at = 0\<rparr>],
             seq_conversations := 1, seq_knowledge := 1\<rparr>) 1) = Inr () \<and>
   tbl_knowledge (snd (db_DeleteConversation (example_env (\<lambda>n p. None) (\<lambda>n. False) [])
          (empty_world\<lparr>
             tbl_conversations := [\<lparr>c_ID = 1, c_Title = ''t'', c_CreatedAt = 0\<rparr>],
             tbl_knowledge :=
               [\<lparr>kn_id = 1, kn_content = ''fact'', kn_conversation_id = Some 1,
                 kn_created_at = 0\<rparr>],
             seq_conversations := 1, seq_knowledge := 1\<rparr>) 1)) = []"
  by code_simp

section \<open>The Action Dispatcher: claim C7\<close>

lemma save_response_eq:
  "save_response e w convID content =
     (if sql_fails e (statements w)
      then (Inl (Wrapped ''failed to save message'' (Sql_error (statements w))),
            w\<lparr>statements := statements w + 1\<rparr>)
      else (Inr \<lparr>m_ID = seq_messages w + 1, m_ConvID = convID, m_Role = ''assistant'',
                 m_Content = content, m_CreatedAt = CURRENT_TIMESTAMP e (statements w)\<rparr>,
            w\<lparr>statements := statements w + 1,
              tbl_messages := tbl_messages w @
                [\<lparr>m_ID = seq_messages w + 1, m_ConvID = convID, m_Role = ''assistant'',
                  m_Content = content, m_CreatedAt = CURRENT_TIMESTAMP e (statements w)\<rparr>],
              seq_messages := seq_messages w + 1\<rparr>))"
  by (simp add: save_response_def db_SaveMessage_def Let_def)

lemma save_response_sent: "sent (snd (save_response e w cid c)) = sent w"
  by (simp add: save_response_eq)

lemma dispatch_sent: "sent (snd (dispatch e w msg r)) = sent w"
proof -
  have k: "sent (snd (db_SaveToKnowledgeBase e w c i)) = sent w" for c i
    by (simp add: db_SaveToKnowledgeBase_def Let_def)
  have c: "sent (snd (db_CreateConversation e w t)) = sent w" for t
    by (simp add: db_CreateConversation_def Let_def)
  show ?thesis
  proof (cases "db_SaveToKnowledgeBase e w (render_store (Store_Info r)) (m_ConvID msg)")
    case kb: (Pair x wk)
    show ?thesis
    proof (cases "db_CreateConversation e w (NewTitle r)")
      case cc: (Pair y wc)
      from k [of "render_store (Store_Info r)" "m_ConvID msg"] kb have "sent wk = sent w"
        by simp
      moreover from c [of "NewTitle r"] cc have "sent wc = sent w"
        by simp
      ultimately show ?thesis
        using kb cc by (cases y) (simp_all add: dispatch_def save_response_sent)
    qed
  qed
qed

lemma dispatch_error:
  assumes "fst (dispatch e w msg r) = Inl err"
  shows "(\<exists>x. err = Wrapped ''failed to save message'' x \<or>
              err = Wrapped ''failed to create new conversation'' x) \<or>
         (\<exists>a. err = Unknown_action a)"
  using assms
  by (auto simp: dispatch_def save_response_eq db_CreateConversation_def Let_def
      split: if_splits prod.splits)

lemma dispatch_not_retrieval:
  assumes "fst (dispatch e w msg r) = Inl err"
  shows "err \<noteq> Wrapped ''failed to search knowledge base'' x \<and>
         err \<noteq> Wrapped ''failed to evaluate relevance'' x"
proof -
  from dispatch_error [OF assms] consider
    y where "err = Wrapped ''failed to save message'' y"
    | y where "err = Wrapped ''failed to create new conversation'' y"
    | a where "err = Unknown_action a"
    by blast
  then show ?thesis by cases simp_all
qed

text \<open>
  Claim C7. For a \<open>store\<close> action whose knowledge write fails, the dispatcher goes on to
  save the assistant's message, with the interpreted content, on the current
  conversation: when that statement succeeds the message is returned and is the new last
  row of the table of messages, and the only error the dispatcher can return is that of
  this statement.
\<close>

theorem store_failure_still_replies:
  assumes "Action r = ''store''"
    and "db_SaveToKnowledgeBase e w (render_store (Store_Info r)) (m_ConvID msg) =
           (Inl err, w1)"
  shows "dispatch e w msg r = save_response e w1 (m_ConvID msg) (Content r) \<and>
     (\<not> sql_fails e (statements w1) \<longrightarrow>
        fst (dispatch e w msg r) =
          Inr \<lparr>m_ID = seq_messages w1 + 1, m_ConvID = m_ConvID msg, m_Role = ''assistant'',
               m_Content = Content r, m_CreatedAt = CURRENT_TIMESTAMP e (statements w1)\<rparr> \<and>
        tbl_messages (snd (dispatch e w msg r)) =
          tbl_messages w @
          [\<lparr>m_ID = seq_messages w1 + 1, m_ConvID = m_ConvID msg, m_Role = ''assistant'',
            m_Content = Content r, m_CreatedAt = CURRENT_TIMESTAMP e (statements w1)\<rparr>]) \<and>
     (sql_fails e (statements w1) \<longrightarrow>
        fst (dispatch e w msg r) =
          Inl (Wrapped ''failed to save message'' (Sql_error (statements w1))))"
proof -
  have d: "dispatch e w msg r = save_response e w1 (m_ConvID msg) (Content r)"
    using assms by (simp add: dispatch_def)
  have t: "tbl_messages w1 = tbl_messages w"
    using assms(2) by (auto simp: db_SaveToKnowledgeBase_def Let_def split: if_splits)
  show ?thesis
    unfolding d by (simp add: save_response_eq t)
qed

text \<open>The insert into \<open>knowledge\<close> fails (statement 1); the reply is saved by
  statement 2.\<close>

theorem store_failure_still_replies_witness:
  "Action \<lparr>Action = ''store'', Content = ''Noted.'',
           Store_Info = \<lparr>UserInput = [''fact A'', ''fact B''], BotResponse = [''ctx A'']\<rparr>,
           NewTitle = []\<rparr> = ''store'' \<and>
   fst (db_SaveToKnowledgeBase (example_env (\<lambda>n p. None) (\<lambda>n. n = 1) []) empty_world
     (render_store \<lparr>UserInput = [''fact A'', ''fact B''], BotResponse = [''ctx A'']\<rparr>) 1) =
     Inl (Sql_error 1) \<and>
   fst (dispatch (example_env (\<lambda>n p. None) (\<lambda>n. n = 1) []) empty_world
     \<lparr>m_ID = 1, m_ConvID = 1, m_Role = ''user'', m_Content = ''remember this'',
      m_CreatedAt = 1700000000\<rparr>
     \<lparr>Action = ''store'', Content = ''Noted.'',
      Store_Info = \<lparr>UserInput = [''fact A'', ''fact B''], BotResponse = [''ctx A'']\<rparr>,
      NewTitle = []\<rparr>) =
     Inr \<lparr>m_ID = 1, m_ConvID = 1, m_Role = ''assistant'', m_Content = ''Noted.'',
          m_CreatedAt = 1700000002\<rparr>"
proof -
  let ?e = "example_env (\<lambda>n p. None) (\<lambda>n. n = 1) []"
  let ?r = "\<lparr>Action = ''store'', Content = ''Noted.'',
      Store_Info = \<lparr>UserInput = [''fact A'', ''fact B''], BotResponse = [''ctx A'']\<rparr>,
      NewTitle = []\<rparr>"
  let ?msg = "\<lparr>m_ID = 1, m_ConvID = 1, m_Role = ''user'', m_Content = ''remember this'',
      m_CreatedAt = 1700000000\<rparr>"
  have act: "Action ?r = ''store''"
    by simp
  have kb: "db_SaveToKnowledgeBase ?e empty_world (render_store (Store_Info ?r))
              (m_ConvID ?msg) = (Inl (Sql_error 1), empty_world\<lparr>statements := 2\<rparr>)"
    by (simp add: db_SaveToKnowledgeBase_def example_env_sel empty_world_def)
  have ok: "\<not> sql_fails ?e (statements (empty_world\<lparr>statements := 2\<rparr>))"
    by (simp add: example_env_sel)
  from store_failure_still_replies [OF act kb, THEN conjunct2] ok kb show ?thesis
    by (simp add: empty_world_def example_env_sel)
qed

section \<open>A turn: claims C6 and C10\<close>

lemma respond_sent:
  assumes "db_GetConversationHistory e w (m_ConvID msg) 10 = (Inr h, w1)"
  shows "sent (snd (respond e w msg k)) = sent w1 @ [assemble_prompt e k h msg]"
  using assms
  by (simp add: respond_def GenerateFromSinglePrompt_def Let_def dispatch_sent
      split: option.split sum.split)

lemma respond_dispatch:
  assumes "db_GetConversationHistory e w (m_ConvID msg) 10 = (Inr h, w1)"
    and "Generate e (length (sent w1)) (assemble_prompt e k h msg) = Some completion"
    and "interpret_completion e completion = Inr r"
  shows "respond e w msg k =
     dispatch e (w1\<lparr>sent := sent w1 @ [assemble_prompt e k h msg]\<rparr>) msg r"
  using assms by (simp add: respond_def GenerateFromSinglePrompt_def Let_def)

lemma cleanup_error:
  assumes "cleanup r = Inl err"
  shows "\<exists>lo hi. err = Panic_slice_bounds lo hi"
  using assms
  by (auto simp: cleanup_def slice_def Let_def split: if_splits)

lemma respond_not_retrieval:
  assumes "fst (respond e w msg k) = Inl err"
  shows "err \<noteq> Wrapped ''failed to search knowledge base'' x \<and>
         err \<noteq> Wrapped ''failed to evaluate relevance'' x"
proof (cases "db_GetConversationHistory e w (m_ConvID msg) 10")
  case (Pair y w1)
  show ?thesis
  proof (cases y)
    case (Inl a)
    with Pair assms have "err = Wrapped ''failed to get conversation history'' a"
      by (simp add: respond_def)
    then show ?thesis by simp
  next
    case (Inr h)
    show ?thesis
    proof (cases "Generate e (length (sent w1)) (assemble_prompt e k h msg)")
      case None
      with Pair Inr assms have
        "err = Wrapped ''failed to generate completion'' (Provider_error (length (sent w1)))"
        by (simp add: respond_def GenerateFromSinglePrompt_def Let_def)
      then show ?thesis by simp
    next
      case (Some completion)
      show ?thesis
      proof (cases "interpret_completion e completion")
        case p: (Inl a)
        with Pair Inr Some assms have "err = a"
          by (simp add: respond_def GenerateFromSinglePrompt_def Let_def)
        with p have "cleanup (parse_completion e completion) = Inl err"
          by (simp add: interpret_completion_def)
        then obtain lo hi where "err = Panic_slice_bounds lo hi"
          using cleanup_error by blast
        then show ?thesis by simp
      next
        case r: (Inr r)
        from Pair Inr have hist: "db_GetConversationHistory e w (m_ConvID msg) 10 = (Inr h, w1)"
          by simp
        have "respond e w msg k =
             dispatch e (w1\<lparr>sent := sent w1 @ [assemble_prompt e k h msg]\<rparr>) msg r"
          by (rule respond_dispatch [OF hist Some r])
        with assms have
          "fst (dispatch e (w1\<lparr>sent := sent w1 @ [assemble_prompt e k h msg]\<rparr>) msg r) = Inl err"
          by simp
        then show ?thesis by (rule dispatch_not_retrieval)
      qed
    qed
  qed
qed





lemma example_interpret_Hello:
  "interpret_completion (example_env p f r) ''Hello'' =
     Inr \<lparr>Action = ''reply'', Content = ''Hello'',
          Store_Info = \<lparr>UserInput = [], BotResponse = []\<rparr>, NewTitle = []\<rparr>"
  by (simp add: interpret_completion_def parse_completion_def example_json_None cleanup_def
      TrimSpace_Hello HasPrefix_def)

lemma SaveToKnowledgeBase_messages:
  assumes "db_SaveToKnowledgeBase e w c i = (x, wk)"
  shows "tbl_messages wk = tbl_messages w" and "seq_messages wk = seq_messages w"
  using assms by (auto simp: db_SaveToKnowledgeBase_def Let_def split: if_splits)

lemma CreateConversation_ok:
  assumes "\<not> sql_fails e (statements w)"
  shows "db_CreateConversation e w t =
     (Inr \<lparr>c_ID = seq_conversations w + 1, c_Title = t,
           c_CreatedAt = CURRENT_TIMESTAMP e (statements w)\<rparr>,
      w\<lparr>statements := statements w + 1,
        tbl_conversations := tbl_conversations w @
          [\<lparr>c_ID = seq_conversations w + 1, c_Title = t,
            c_CreatedAt = CURRENT_TIMESTAMP e (statements w)\<rparr>],
        seq_conversations := seq_conversations w + 1\<rparr>)"
  using assms by (simp add: db_CreateConversation_def Let_def)

lemma example_json_Some:
  "json_Unmarshal (example_env p f r) example_store_completion =
     Some \<lparr>Action = ''store'', Content = ''Noted.'',
          Store_Info = \<lparr>UserInput = [''fact A'', ''fact B''], BotResponse = [''ctx A'']\<rparr>,
          NewTitle = []\<rparr>"
  "json_Unmarshal (example_env p f r) example_new_conversation_completion =
     Some \<lparr>Action = ''new_conversation'', Content = ''A new topic.'',
          Store_Info = \<lparr>UserInput = [], BotResponse = []\<rparr>, NewTitle = ''T''\<rparr>"
  by (simp_all add: example_env_def example_store_completion_def
      example_new_conversation_completion_def)

lemma example_interpret_store:
  "interpret_completion (example_env p f r) example_store_completion =
     Inr \<lparr>Action = ''store'', Content = ''Noted.'',
          Store_Info = \<lparr>UserInput = [''fact A'', ''fact B''], BotResponse = [''ctx A'']\<rparr>,
          NewTitle = []\<rparr>"
proof -
  have t: "TrimSpace ''Noted.'' = ''Noted.''"
    by code_simp
  show ?thesis
    by (simp add: interpret_completion_def parse_completion_def example_json_Some cleanup_def
        t HasPrefix_def)
qed

lemma example_interpret_new_conversation:
  "interpret_completion (example_env p f r) example_new_conversation_completion =
     Inr \<lparr>Action = ''new_conversation'', Content = ''A new topic.'',
          Store_Info = \<lparr>UserInput = [], BotResponse = []\<rparr>, NewTitle = ''T''\<rparr>"
proof -
  have t: "TrimSpace ''A new topic.'' = ''A new topic.''"
    by code_simp
  show ?thesis
    by (simp add: interpret_completion_def parse_completion_def example_json_Some cleanup_def
        t HasPrefix_def)
qed

lemma example_retrieval_fails:
  assumes "f 0"
  shows "SearchKnowledge (example_env p f []) empty_world q =
      (Inl (Wrapped ''failed to search knowledge base''
            (Wrapped ''failed to create FTS table'' (Sql_error 0))),
       empty_world\<lparr>statements := 1\<rparr>)"
  using assms
  by (simp add: SearchKnowledge_def db_SearchKnowledge_def example_env_sel empty_world_def)

lemma example_history_empty:
  assumes "\<not> f 1"
  shows "db_GetConversationHistory (example_env p f []) (empty_world\<lparr>statements := 1\<rparr>)
           c 10 = (Inr [], empty_world\<lparr>statements := 2\<rparr>)"
proof -
  have "ORDER_BY_created_at_DESC (example_env p f []) [] = []"
    by (simp add: example_env_def)
  with assms show ?thesis
    by (simp add: db_GetConversationHistory_def Let_def example_env_sel empty_world_def)
qed

text \<open>
  Claim C6. When the knowledge retrieval fails, in the store's search or in a scoring
  call, \<open>ProcessMessage\<close> goes on as it does with no knowledge at all, and what it
  returns is not the error of the retrieval. Once the history is fetched, the prompt it
  sends to the provider has no line between the heading of the knowledge and the heading
  of the history. The turn then produces a reply for each of the four actions, as soon as
  the statements the action itself runs succeed: for \<open>reply\<close> and \<open>search\<close>, when the
  statement saving the reply succeeds; for \<open>store\<close>, whatever the knowledge write did,
  when the statement saving the reply succeeds; for \<open>new_conversation\<close>, when the
  conversation is created and the reply saved, on the new conversation. In each case the
  message returned is the assistant's message with the interpreted content, and it is
  the new last row of the table of messages.
\<close>

theorem retrieval_failure_not_fatal:
  assumes "SearchKnowledge e w (m_Content msg) = (Inl err, w1)"
  shows "ProcessMessage e w msg = respond e w1 msg [] \<and>
     fst (ProcessMessage e w msg) \<noteq> Inl err \<and>
     (\<forall>history w2.
        db_GetConversationHistory e w1 (m_ConvID msg) 10 = (Inr history, w2) \<longrightarrow>
        sent (snd (ProcessMessage e w msg)) =
          sent w2 @
          [systemPrompt @ NL @ NL @ ''Relevant knowledge from database:'' @ NL @
           NL @ NL @ ''Conversation history:'' @ NL @ history_lines history @
           NL @ ''Current message:'' @ NL @ m_Role msg @ '': '' @ m_Content msg @ NL @ NL @
           ''Response:''] \<and>
        (\<forall>completion r.
           Generate e (length (sent w2)) (assemble_prompt e [] history msg) = Some completion \<and>
           interpret_completion e completion = Inr r \<longrightarrow>
           ((Action r = ''reply'' \<or> Action r = ''search'') \<and>
            \<not> sql_fails e (statements w2) \<longrightarrow>
            fst (ProcessMessage e w msg) =
              Inr \<lparr>m_ID = seq_messages w2 + 1, m_ConvID = m_ConvID msg,
                   m_Role = ''assistant'', m_Content = Content r,
                   m_CreatedAt = CURRENT_TIMESTAMP e (statements w2)\<rparr> \<and>
            tbl_messages (snd (ProcessMessage e w msg)) =
              tbl_messages w2 @
              [\<lparr>m_ID = seq_messages w2 + 1, m_ConvID = m_ConvID msg,
                m_Role = ''assistant'', m_Content = Content r,
                m_CreatedAt = CURRENT_TIMESTAMP e (statements w2)\<rparr>]) \<and>
           (Action r = ''store'' \<longrightarrow>
            (\<forall>x wk.
               db_SaveToKnowledgeBase e
                 (w2\<lparr>sent := sent w2 @ [assemble_prompt e [] history msg]\<rparr>)
                 (render_store (Store_Info r)) (m_ConvID msg) = (x, wk) \<and>
               \<not> sql_fails e (statements wk) \<longrightarrow>
               fst (ProcessMessage e w msg) =
                 Inr \<lparr>m_ID = seq_messages w2 + 1, m_ConvID = m_ConvID msg,
                      m_Role = ''assistant'', m_Content = Content r,
                      m_CreatedAt = CURRENT_TIMESTAMP e (statements wk)\<rparr> \<and>
               tbl_messages (snd (ProcessMessage e w msg)) =
                 tbl_messages w2 @
                 [\<lparr>m_ID = seq_messages w2 + 1, m_ConvID = m_ConvID msg,
                   m_Role = ''assistant'', m_Content = Content r,
                   m_CreatedAt = CURRENT_TIMESTAMP e (statements wk)\<rparr>])) \<and>
           (Action r = ''new_conversation'' \<and>
            \<not> sql_fails e (statements w2) \<and> \<not> sql_fails e (statements w2 + 1) \<longrightarrow>
            fst (ProcessMessage e w msg) =
              Inr \<lparr>m_ID = seq_messages w2 + 1, m_ConvID = seq_conversations w2 + 1,
                   m_Role = ''assistant'', m_Content = Content r,
                   m_CreatedAt = CURRENT_TIMESTAMP e (statements w2 + 1)\<rparr> \<and>
            tbl_messages (snd (ProcessMessage e w msg)) =
              tbl_messages w2 @
              [\<lparr>m_ID = seq_messages w2 + 1, m_ConvID = seq_conversations w2 + 1,
                m_Role = ''assistant'', m_Content = Content r,
                m_CreatedAt = CURRENT_TIMESTAMP e (statements w2 + 1)\<rparr>])))"
proof (intro conjI allI impI)
  show pm: "ProcessMessage e w msg = respond e w1 msg []"
    using assms by (simp add: ProcessMessage_def)
  show "fst (ProcessMessage e w msg) \<noteq> Inl err"
  proof
    assume "fst (ProcessMessage e w msg) = Inl err"
    then have r: "fst (respond e w1 msg []) = Inl err"
      by (simp add: pm)
    from SearchKnowledge_error [OF assms] obtain x where
      "err = Wrapped ''failed to search knowledge base'' x \<or>
       err = Wrapped ''failed to evaluate relevance'' x"
      by (rule exE)
    with respond_not_retrieval [OF r, of x] show False
      by (rule_tac disjE) simp_all
  qed
next
  fix history w2
  assume hist: "db_GetConversationHistory e w1 (m_ConvID msg) 10 = (Inr history, w2)"
  have pm: "ProcessMessage e w msg = respond e w1 msg []"
    using assms by (simp add: ProcessMessage_def)
  show "sent (snd (ProcessMessage e w msg)) =
          sent w2 @
          [systemPrompt @ NL @ NL @ ''Relevant knowledge from database:'' @ NL @
           NL @ NL @ ''Conversation history:'' @ NL @ history_lines history @
           NL @ ''Current message:'' @ NL @ m_Role msg @ '': '' @ m_Content msg @ NL @ NL @
           ''Response:'']"
    unfolding pm respond_sent [OF hist]
    by (simp add: assemble_prompt_def knowledge_lines_def)
  fix completion r
  assume a: "Generate e (length (sent w2)) (assemble_prompt e [] history msg) = Some completion \<and>
           interpret_completion e completion = Inr r"
  then have gen: "Generate e (length (sent w2)) (assemble_prompt e [] history msg) = Some completion"
    and int: "interpret_completion e completion = Inr r"
    by simp_all
  let ?w3 = "w2\<lparr>sent := sent w2 @ [assemble_prompt e [] history msg]\<rparr>"
  have d: "ProcessMessage e w msg = dispatch e ?w3 msg r"
    unfolding pm by (rule respond_dispatch [OF hist gen int])
  {
    assume b: "(Action r = ''reply'' \<or> Action r = ''search'') \<and> \<not> sql_fails e (statements w2)"
    then have s: "dispatch e ?w3 msg r = save_response e ?w3 (m_ConvID msg) (Content r)"
      by (auto simp: dispatch_def)
    show "fst (ProcessMessage e w msg) =
              Inr \<lparr>m_ID = seq_messages w2 + 1, m_ConvID = m_ConvID msg,
                   m_Role = ''assistant'', m_Content = Content r,
                   m_CreatedAt = CURRENT_TIMESTAMP e (statements w2)\<rparr>"
      unfolding d s using b by (simp add: save_response_eq)
    show "tbl_messages (snd (ProcessMessage e w msg)) =
              tbl_messages w2 @
              [\<lparr>m_ID = seq_messages w2 + 1, m_ConvID = m_ConvID msg,
                m_Role = ''assistant'', m_Content = Content r,
                m_CreatedAt = CURRENT_TIMESTAMP e (statements w2)\<rparr>]"
      unfolding d s using b by (simp add: save_response_eq)
  }
  {
    fix x wk
    assume st: "Action r = ''store''"
    assume kb: "db_SaveToKnowledgeBase e ?w3 (render_store (Store_Info r)) (m_ConvID msg) =
                 (x, wk) \<and> \<not> sql_fails e (statements wk)"
    then have kb1: "db_SaveToKnowledgeBase e ?w3 (render_store (Store_Info r)) (m_ConvID msg) =
                 (x, wk)" and ok: "\<not> sql_fails e (statements wk)"
      by simp_all
    have s: "dispatch e ?w3 msg r = save_response e wk (m_ConvID msg) (Content r)"
      using st kb1 by (simp add: dispatch_def)
    have t: "tbl_messages wk = tbl_messages w2" "seq_messages wk = seq_messages w2"
      using SaveToKnowledgeBase_messages [OF kb1] by simp_all
    show "fst (ProcessMessage e w msg) =
                 Inr \<lparr>m_ID = seq_messages w2 + 1, m_ConvID = m_ConvID msg,
                      m_Role = ''assistant'', m_Content = Content r,
                      m_CreatedAt = CURRENT_TIMESTAMP e (statements wk)\<rparr>"
      unfolding d s using ok by (simp add: save_response_eq t)
    show "tbl_messages (snd (ProcessMessage e w msg)) =
                 tbl_messages w2 @
                 [\<lparr>m_ID = seq_messages w2 + 1, m_ConvID = m_ConvID msg,
                   m_Role = ''assistant'', m_Content = Content r,
                   m_CreatedAt = CURRENT_TIMESTAMP e (statements wk)\<rparr>]"
      unfolding d s using ok by (simp add: save_response_eq t)
  }
  {
    assume b: "Action r = ''new_conversation'' \<and>
            \<not> sql_fails e (statements w2) \<and> \<not> sql_fails e (statements w2 + 1)"
    then have ok1: "\<not> sql_fails e (statements ?w3)"
      by simp
    have s: "dispatch e ?w3 msg r =
        save_response e
          (?w3\<lparr>statements := statements ?w3 + 1,
             tbl_conversations := tbl_conversations ?w3 @
               [\<lparr>c_ID = seq_conversations ?w3 + 1, c_Title = NewTitle r,
                 c_CreatedAt = CURRENT_TIMESTAMP e (statements ?w3)\<rparr>],
             seq_conversations := seq_conversations ?w3 + 1\<rparr>)
          (seq_conversations ?w3 + 1) (Content r)"
      using b by (simp add: dispatch_def CreateConversation_ok [OF ok1])
    show "fst (ProcessMessage e w msg) =
              Inr \<lparr>m_ID = seq_messages w2 + 1, m_ConvID = seq_conversations w2 + 1,
                   m_Role = ''assistant'', m_Content = Content r,
                   m_CreatedAt = CURRENT_TIMESTAMP e (statements w2 + 1)\<rparr>"
      unfolding d s using b by (simp add: save_response_eq)
    show "tbl_messages (snd (ProcessMessage e w msg)) =
              tbl_messages w2 @
              [\<lparr>m_ID = seq_messages w2 + 1, m_ConvID = seq_conversations w2 + 1,
                m_Role = ''assistant'', m_Content = Content r,
                m_CreatedAt = CURRENT_TIMESTAMP e (statements w2 + 1)\<rparr>]"
      unfolding d s using b by (simp add: save_response_eq)
  }
qed

text \<open>The first statement of the lexical search fails. The provider answers \<open>Hello\<close>,
  which is the reply; or a \<open>store\<close> response whose knowledge write fails too, and the
  reply is still saved; or a \<open>new_conversation\<close> response, and the reply is saved on
  conversation 1.\<close>

theorem retrieval_failure_not_fatal_witness:
  "fst (SearchKnowledge (example_env (\<lambda>n p. Some ''Hello'') (\<lambda>n. n = 0) []) empty_world
          ''hi there'') =
     Inl (Wrapped ''failed to search knowledge base''
            (Wrapped ''failed to create FTS table'' (Sql_error 0))) \<and>
   fst (ProcessMessage (example_env (\<lambda>n p. Some ''Hello'') (\<lambda>n. n = 0) []) empty_world
          \<lparr>m_ID = 1, m_ConvID = 1, m_Role = ''user'', m_Content = ''hi there'',
           m_CreatedAt = 1700000000\<rparr>) =
     Inr \<lparr>m_ID = 1, m_ConvID = 1, m_Role = ''assistant'', m_Content = ''Hello'',
          m_CreatedAt = 1700000002\<rparr> \<and>
   fst (ProcessMessage
          (example_env (\<lambda>n p. Some example_store_completion) (\<lambda>n. n = 0 \<or> n = 4) [])
          empty_world
          \<lparr>m_ID = 1, m_ConvID = 1, m_Role = ''user'', m_Content = ''hi there'',
           m_CreatedAt = 1700000000\<rparr>) =
     Inr \<lparr>m_ID = 1, m_ConvID = 1, m_Role = ''assistant'', m_Content = ''Noted.'',
          m_CreatedAt = 1700000005\<rparr> \<and>
   tbl_messages (snd (ProcessMessage
          (example_env (\<lambda>n p. Some example_new_conversation_completion) (\<lambda>n. n = 0) [])
          empty_world
          \<lparr>m_ID = 1, m_ConvID = 1, m_Role = ''user'', m_Content = ''hi there'',
           m_CreatedAt = 1700000000\<rparr>)) =
     [\<lparr>m_ID = 1, m_ConvID = 1, m_Role = ''assistant'', m_Content = ''A new topic.'',
       m_CreatedAt = 1700000003\<rparr>]"
proof -
  let ?msg = "\<lparr>m_ID = 1, m_ConvID = 1, m_Role = ''user'', m_Content = ''hi there'',
           m_CreatedAt = 1700000000\<rparr>"
  let ?w1 = "empty_world\<lparr>statements := 1\<rparr>"
  let ?w2 = "empty_world\<lparr>statements := 2\<rparr>"
  let ?err = "Wrapped ''failed to search knowledge base''
            (Wrapped ''failed to create FTS table'' (Sql_error 0))"
  have reply: "fst (ProcessMessage (example_env (\<lambda>n p. Some ''Hello'') (\<lambda>n. n = 0) [])
      empty_world ?msg) =
     Inr \<lparr>m_ID = 1, m_ConvID = 1, m_Role = ''assistant'', m_Content = ''Hello'',
          m_CreatedAt = 1700000002\<rparr>"
  proof -
    let ?e = "example_env (\<lambda>n p. Some ''Hello'') (\<lambda>n. n = 0) []"
    let ?r = "\<lparr>Action = ''reply'', Content = ''Hello'',
          Store_Info = \<lparr>UserInput = [], BotResponse = []\<rparr>, NewTitle = []\<rparr>"
    have fail: "SearchKnowledge ?e empty_world (m_Content ?msg) = (Inl ?err, ?w1)"
      by (simp add: example_retrieval_fails)
    have hist: "db_GetConversationHistory ?e ?w1 (m_ConvID ?msg) 10 = (Inr [], ?w2)"
      using example_history_empty [of "sql_fails ?e" "Generate ?e" 1]
      by (simp add: example_env_sel)
    have gi: "Generate ?e (length (sent ?w2)) (assemble_prompt ?e [] [] ?msg) = Some ''Hello'' \<and>
        interpret_completion ?e ''Hello'' = Inr ?r"
      by (simp add: example_env_sel example_interpret_Hello)
    have ok: "(Action ?r = ''reply'' \<or> Action ?r = ''search'') \<and>
        \<not> sql_fails ?e (statements ?w2)"
      by (simp add: example_env_sel empty_world_def)
    have "fst (ProcessMessage ?e empty_world ?msg) =
        Inr \<lparr>m_ID = seq_messages ?w2 + 1, m_ConvID = m_ConvID ?msg,
             m_Role = ''assistant'', m_Content = Content ?r,
             m_CreatedAt = CURRENT_TIMESTAMP ?e (statements ?w2)\<rparr>"
      by (rule retrieval_failure_not_fatal [OF fail, THEN conjunct2, THEN conjunct2,
            rule_format, OF hist, THEN conjunct2, rule_format, OF gi, THEN conjunct1,
            rule_format, OF ok, THEN conjunct1])
    then show ?thesis
      by (simp add: example_env_sel empty_world_def)
  qed
  have store: "fst (ProcessMessage
          (example_env (\<lambda>n p. Some example_store_completion) (\<lambda>n. n = 0 \<or> n = 4) [])
          empty_world ?msg) =
     Inr \<lparr>m_ID = 1, m_ConvID = 1, m_Role = ''assistant'', m_Content = ''Noted.'',
          m_CreatedAt = 1700000005\<rparr>"
  proof -
    let ?e = "example_env (\<lambda>n p. Some example_store_completion) (\<lambda>n. n = 0 \<or> n = 4) []"
    let ?r = "\<lparr>Action = ''store'', Content = ''Noted.'',
          Store_Info = \<lparr>UserInput = [''fact A'', ''fact B''], BotResponse = [''ctx A'']\<rparr>,
          NewTitle = []\<rparr>"
    let ?w3 = "?w2\<lparr>sent := sent ?w2 @ [assemble_prompt ?e [] [] ?msg]\<rparr>"
    let ?wk = "?w3\<lparr>statements := 5\<rparr>"
    have fail: "SearchKnowledge ?e empty_world (m_Content ?msg) = (Inl ?err, ?w1)"
      by (simp add: example_retrieval_fails)
    have hist: "db_GetConversationHistory ?e ?w1 (m_ConvID ?msg) 10 = (Inr [], ?w2)"
      using example_history_empty [of "sql_fails ?e" "Generate ?e" 1]
      by (simp add: example_env_sel)
    have gi: "Generate ?e (length (sent ?w2)) (assemble_prompt ?e [] [] ?msg) =
          Some example_store_completion \<and>
        interpret_completion ?e example_store_completion = Inr ?r"
      by (simp add: example_env_sel example_interpret_store)
    have st: "Action ?r = ''store''"
      by simp
    have kb: "db_SaveToKnowledgeBase ?e ?w3 (render_store (Store_Info ?r)) (m_ConvID ?msg) =
          (Inl (Sql_error 4), ?wk) \<and> \<not> sql_fails ?e (statements ?wk)"
      by (simp add: db_SaveToKnowledgeBase_def Let_def example_env_sel empty_world_def)
    have "fst (ProcessMessage ?e empty_world ?msg) =
        Inr \<lparr>m_ID = seq_messages ?w2 + 1, m_ConvID = m_ConvID ?msg,
             m_Role = ''assistant'', m_Content = Content ?r,
             m_CreatedAt = CURRENT_TIMESTAMP ?e (statements ?wk)\<rparr>"
      by (rule retrieval_failure_not_fatal [OF fail, THEN conjunct2, THEN conjunct2,
            rule_format, OF hist, THEN conjunct2, rule_format, OF gi, THEN conjunct2,
            THEN conjunct1, rule_format, OF st kb, THEN conjunct1])
    then show ?thesis
      by (simp add: example_env_sel empty_world_def)
  qed
  have new: "tbl_messages (snd (ProcessMessage
          (example_env (\<lambda>n p. Some example_new_conversation_completion) (\<lambda>n. n = 0) [])
          empty_world ?msg)) =
     [\<lparr>m_ID = 1, m_ConvID = 1, m_Role = ''assistant'', m_Content = ''A new topic.'',
       m_CreatedAt = 1700000003\<rparr>]"
  proof -
    let ?e = "example_env (\<lambda>n p. Some example_new_conversation_completion) (\<lambda>n. n = 0) []"
    let ?r = "\<lparr>Action = ''new_conversation'', Content = ''A new topic.'',
          Store_Info = \<lparr>UserInput = [], BotResponse = []\<rparr>, NewTitle = ''T''\<rparr>"
    have fail: "SearchKnowledge ?e empty_world (m_Content ?msg) = (Inl ?err, ?w1)"
      by (simp add: example_retrieval_fails)
    have hist: "db_GetConversationHistory ?e ?w1 (m_ConvID ?msg) 10 = (Inr [], ?w2)"
      using example_history_empty [of "sql_fails ?e" "Generate ?e" 1]
      by (simp add: example_env_sel)
    have gi: "Generate ?e (length (sent ?w2)) (assemble_prompt ?e [] [] ?msg) =
          Some example_new_conversation_completion \<and>
        interpret_completion ?e example_new_conversation_completion = Inr ?r"
      by (simp add: example_env_sel example_interpret_new_conversation)
    have ok: "Action ?r = ''new_conversation'' \<and>
        \<not> sql_fails ?e (statements ?w2) \<and> \<not> sql_fails ?e (statements ?w2 + 1)"
      by (simp add: example_env_sel empty_world_def)
    have "tbl_messages (snd (ProcessMessage ?e empty_world ?msg)) =
        tbl_messages ?w2 @
        [\<lparr>m_ID = seq_messages ?w2 + 1, m_ConvID = seq_conversations ?w2 + 1,
          m_Role = ''assistant'', m_Content = Content ?r,
          m_CreatedAt = CURRENT_TIMESTAMP ?e (statements ?w2 + 1)\<rparr>]"
      by (rule retrieval_failure_not_fatal [OF fail, THEN conjunct2, THEN conjunct2,
            rule_format, OF hist, THEN conjunct2, rule_format, OF gi, THEN conjunct2,
            THEN conjunct2, rule_format, OF ok, THEN conjunct2])
    then show ?thesis
      by (simp add: example_env_sel empty_world_def)
  qed
  have "fst (SearchKnowledge (example_env (\<lambda>n p. Some ''Hello'') (\<lambda>n. n = 0) []) empty_world
          ''hi there'') = Inl ?err"
    by (simp add: example_retrieval_fails)
  with reply store new show ?thesis
    by (intro conjI)
qed



end
